theory Spec2Isabelle
  imports Complex_Main "HOL-Library.Multiset" "HOL-Library.Product_Lexorder"
begin

chapter \<open>LiveQuiz: the polling back end and its load-test harness\<close>

section \<open>Python values\<close>

text \<open>
  Python's integers are \<open>int\<close>. A Python \<^verbatim>\<open>str\<close> is a \<open>string\<close> holding its UTF-8
  encoding, so that the Chinese literals of the source can be written down byte by byte;
  ASCII text is one byte per character. Exceptions are values of \<open>py_error\<close>, and a
  computation that may raise returns \<open>py_error + 'a\<close>.
\<close>

datatype py_error =
    IndexError
  | ZeroDivisionError
  | ValueError
  | TypeError
  | InterfaceError string          \<comment> \<open>psycopg2: use of a closed cursor\<close>
  | IntegrityError string          \<comment> \<open>psycopg2: a constraint of the schema is violated\<close>

definition bind_res :: "'e + 'a \<Rightarrow> ('a \<Rightarrow> 'e + 'b) \<Rightarrow> 'e + 'b" where
  "bind_res r f = (case r of Inl e \<Rightarrow> Inl e | Inr v \<Rightarrow> f v)"

text \<open>\<^verbatim>\<open>str(n)\<close> for an integer: decimal digits, with a minus sign when negative.\<close>

fun str_nat :: "nat \<Rightarrow> string" where
  "str_nat n = (if n < 10 then [''0123456789'' ! n]
                else str_nat (n div 10) @ [''0123456789'' ! (n mod 10)])"

definition str_int :: "int \<Rightarrow> string" where
  "str_int i = (if i < 0 then CHR ''-'' # str_nat (nat (- i)) else str_nat (nat i))"

text \<open>
  \<^verbatim>\<open>s[:n]\<close> cuts after \<open>n\<close> characters. In UTF-8 a character starts at every byte that
  is not a continuation byte (\<open>0x80\<close> to \<open>0xBF\<close>).
\<close>

definition continuation_byte :: "char \<Rightarrow> bool" where
  "continuation_byte c = (128 \<le> (of_char c :: nat) \<and> (of_char c :: nat) < 192)"

fun take_chars :: "nat \<Rightarrow> string \<Rightarrow> string" where
  "take_chars n [] = []"
| "take_chars n (c # cs) =
     (if continuation_byte c then c # take_chars n cs
      else (case n of 0 \<Rightarrow> [] | Suc k \<Rightarrow> c # take_chars k cs))"

text \<open>Truthiness of an optional string (\<^verbatim>\<open>if error_msg:\<close>): \<^verbatim>\<open>None\<close> and \<^verbatim>\<open>""\<close> are false.\<close>

fun truthy_str :: "string option \<Rightarrow> bool" where
  "truthy_str None = False"
| "truthy_str (Some s) = (s \<noteq> [])"

section \<open>load\_test.py: the result accumulator\<close>

text \<open>
  \<^verbatim>\<open>LoadTestResult\<close> holds three counters, the list of response times, the list of
  error messages and the two clock readings of the run. The response times are
  differences of clock readings; the record is polymorphic in their type.
  \<^verbatim>\<open>error_msg: str = None\<close> is a \<open>string option\<close>.
\<close>

record 'a LoadTestResult =
  total_requests :: int
  successful_requests :: int
  failed_requests :: int
  response_times :: "'a list"
  error_messages :: "string list"
  start_time :: "'a option"
  end_time :: "'a option"

text \<open>\<^verbatim>\<open>LoadTestResult.__init__\<close>\<close>

definition LoadTestResult_init :: "'a LoadTestResult" where
  "LoadTestResult_init =
     \<lparr>total_requests = 0, successful_requests = 0, failed_requests = 0,
      response_times = [], error_messages = [], start_time = None, end_time = None\<rparr>"

text \<open>\<^verbatim>\<open>LoadTestResult.add_result(success, response_time, error_msg)\<close>\<close>

definition add_result ::
  "bool \<Rightarrow> 'a \<Rightarrow> string option \<Rightarrow> 'a LoadTestResult \<Rightarrow> 'a LoadTestResult" where
  "add_result success response_time error_msg self =
     (let self = self\<lparr>total_requests := total_requests self + 1\<rparr>;
          self = self\<lparr>response_times := response_times self @ [response_time]\<rparr>
      in if success then self\<lparr>successful_requests := successful_requests self + 1\<rparr>
         else
           (let self = self\<lparr>failed_requests := failed_requests self + 1\<rparr>
            in case error_msg of
                 None \<Rightarrow> self
               | Some m \<Rightarrow>
                   if truthy_str (Some m)
                   then self\<lparr>error_messages := error_messages self @ [m]\<rparr>
                   else self))"

text \<open>A sequence of \<^verbatim>\<open>add_result\<close> calls, in call order.\<close>

definition add_results ::
  "(bool \<times> 'a \<times> string option) list \<Rightarrow> 'a LoadTestResult \<Rightarrow> 'a LoadTestResult" where
  "add_results calls self = fold (\<lambda>(s, t, e). add_result s t e) calls self"

text \<open>
  The messages that a sequence of calls leaves in \<open>error_messages\<close>, written from the
  words of the invariant: one entry for each failed call with a non-empty message.
\<close>

definition recorded_messages :: "(bool \<times> 'a \<times> string option) list \<Rightarrow> string list" where
  "recorded_messages calls =
     concat (map (\<lambda>(s, t, e). case e of None \<Rightarrow> []
                                | Some m \<Rightarrow> if \<not> s \<and> m \<noteq> [] then [m] else []) calls)"

section \<open>load\_test.py: one registration request\<close>

text \<open>
  \<^verbatim>\<open>send_register_request\<close> posts one registration and classifies what comes back.
  What the network does is an input of the model: \<^verbatim>\<open>requests.post\<close> either returns a
  response (status code and text) or raises an exception. The exception is described by
  what the \<^verbatim>\<open>except\<close> clauses ask of it: whether it is an instance of
  \<^verbatim>\<open>requests.exceptions.Timeout\<close>, of \<^verbatim>\<open>requests.exceptions.ConnectionError\<close>, and its
  \<^verbatim>\<open>str()\<close>. The exceptions are instances of \<^verbatim>\<open>Exception\<close>. The two readings of
  \<^verbatim>\<open>time.time()\<close>, before the request (\<open>started\<close>) and after it (\<open>finished\<close>), are
  inputs as well.
\<close>

record http_response =
  status_code :: int
  text_of :: string

record py_exception =
  is_Timeout :: bool
  is_ConnectionError :: bool
  exc_str :: string

datatype post_outcome = Returned http_response | Raised py_exception

definition msg_timeout :: string where
  "msg_timeout = [CHR 0xE8, CHR 0xAB, CHR 0x8B, CHR 0xE6, CHR 0xB1, CHR 0x82,
                  CHR 0xE9, CHR 0x80, CHR 0xBE, CHR 0xE6, CHR 0x99, CHR 0x82]"

definition msg_connection :: string where
  "msg_connection = [CHR 0xE9, CHR 0x80, CHR 0xA3, CHR 0xE7, CHR 0xB7, CHR 0x9A,
                     CHR 0xE9, CHR 0x8C, CHR 0xAF, CHR 0xE8, CHR 0xAA, CHR 0xA4]"

definition msg_other_prefix :: string where
  "msg_other_prefix = [CHR 0xE7, CHR 0x99, CHR 0xBC, CHR 0xE7, CHR 0x94, CHR 0x9F,
                       CHR 0xE9, CHR 0x8C, CHR 0xAF, CHR 0xE8, CHR 0xAA, CHR 0xA4, CHR 0x3A, CHR 0x20]"

definition send_register_request ::
  "'t::minus \<Rightarrow> 't \<Rightarrow> post_outcome \<Rightarrow> bool \<times> 't \<times> string option" where
  "send_register_request started finished outcome =
     (case outcome of
        Returned response \<Rightarrow>
          (let response_time = finished - started
           in if status_code response = 201 then (True, response_time, None)
              else (False, response_time,
                    Some (''HTTP '' @ str_int (status_code response) @ '': ''
                            @ take_chars 100 (text_of response))))
      | Raised e \<Rightarrow>
          if is_Timeout e then (False, finished - started, Some msg_timeout)
          else if is_ConnectionError e then (False, finished - started, Some msg_connection)
          else (False, finished - started, Some (msg_other_prefix @ exc_str e)))"

text \<open>
  \<^verbatim>\<open>run_load_test\<close> hands the triple to \<^verbatim>\<open>add_result\<close>:
  \<^verbatim>\<open>success, response_time, error_msg = future.result(); result.add_result(...)\<close>.
\<close>

definition record_request ::
  "'t::minus \<Rightarrow> 't \<Rightarrow> post_outcome \<Rightarrow> 't LoadTestResult \<Rightarrow> 't LoadTestResult" where
  "record_request started finished outcome result =
     (case send_register_request started finished outcome of
        (success, response_time, error_msg) \<Rightarrow> add_result success response_time error_msg result)"

section \<open>load\_test.py: statistics\<close>

subsection \<open>The percentile indices\<close>

text \<open>
  \<^verbatim>\<open>int(len(sorted_times) * 0.95)\<close> multiplies an integer by a float: Python converts the
  integer to a double, multiplies in IEEE-754 binary64 (round to nearest, ties to even)
  and truncates the product. The model is exact. A positive double is a 53-bit
  significand times a power of two, so rounding a positive number to a double only depends
  on its leading bits: \<open>round53 x\<close> rounds the natural number \<open>x\<close> to 53 significant bits,
  to nearest and ties to even, and rounding \<open>x / 2 ^ k\<close> gives \<open>round53 x / 2 ^ k\<close>.
  (Overflow and subnormals are out of reach: they need numbers beyond \<open>2 ^ 1023\<close> or
  below \<open>2 ^ - 1022\<close>.)
\<close>

fun bit_length :: "nat \<Rightarrow> nat" where
  "bit_length n = (if n = 0 then 0 else Suc (bit_length (n div 2)))"

definition round53 :: "nat \<Rightarrow> nat" where
  "round53 x =
     (if bit_length x \<le> 53 then x
      else
        (let s = bit_length x - 53;
             q = x div 2 ^ s;
             r = x mod 2 ^ s;
             half = 2 ^ (s - 1)
         in (if half < r \<or> (r = half \<and> odd q) then q + 1 else q) * 2 ^ s))"

text \<open>
  The literals: \<^verbatim>\<open>0.95\<close> is the double \<open>8556839292003942 / 2 ^ 53\<close> and \<^verbatim>\<open>0.99\<close> is the
  double \<open>8917127262193582 / 2 ^ 53\<close> (\<^verbatim>\<open>0x1.e666666666666p-1\<close> and
  \<^verbatim>\<open>0x1.fae147ae147aep-1\<close>).
\<close>

definition double_095 :: nat where
  "double_095 = 8556839292003942"

definition double_099 :: nat where
  "double_099 = 8917127262193582"

text \<open>
  \<^verbatim>\<open>int(n * d)\<close> for a list length \<open>n\<close> and a double \<open>d = m / 2 ^ 53\<close>: \<^verbatim>\<open>float(n)\<close> is
  \<open>round53 n\<close>, the product is \<open>round53 (round53 n * m) / 2 ^ 53\<close>, and \<^verbatim>\<open>int\<close> drops the
  fraction.
\<close>

definition int_of_product :: "nat \<Rightarrow> nat \<Rightarrow> nat" where
  "int_of_product n m = round53 (round53 n * m) div 2 ^ 53"

definition median_index :: "nat \<Rightarrow> nat" where
  "median_index n = n div 2"

definition p95_index :: "nat \<Rightarrow> nat" where
  "p95_index n = int_of_product n double_095"

definition p99_index :: "nat \<Rightarrow> nat" where
  "p99_index n = int_of_product n double_099"

text \<open>\<^verbatim>\<open>xs[i]\<close> for \<open>i \<ge> 0\<close>: \<^verbatim>\<open>IndexError\<close> beyond the end.\<close>

definition py_index :: "'a list \<Rightarrow> nat \<Rightarrow> py_error + 'a" where
  "py_index xs i = (if i < length xs then Inr (xs ! i) else Inl IndexError)"

subsection \<open>Python's float arithmetic\<close>

text \<open>
  The statistics are computed with Python's floats. Their arithmetic is a parameter of
  the model: the record of the operations that \<^verbatim>\<open>get_statistics\<close> uses, of which nothing
  is assumed. The numbers are linearly ordered (a measured time is not a NaN), and \<open>0\<close>
  is the number that the literal \<^verbatim>\<open>0\<close> denotes, the one that is false.
\<close>

record 'a arithmetic =
  int_to_float :: "int \<Rightarrow> 'a"          \<comment> \<open>an integer as the operand of a float operation\<close>
  float_sum :: "'a list \<Rightarrow> 'a"           \<comment> \<open>\<^verbatim>\<open>sum(xs)\<close>\<close>
  float_sub :: "'a \<Rightarrow> 'a \<Rightarrow> 'a"          \<comment> \<open>\<^verbatim>\<open>x - y\<close>\<close>
  float_mul :: "'a \<Rightarrow> 'a \<Rightarrow> 'a"          \<comment> \<open>\<^verbatim>\<open>x * y\<close>\<close>
  float_div :: "'a \<Rightarrow> 'a \<Rightarrow> 'a"          \<comment> \<open>\<^verbatim>\<open>x / y\<close> for \<open>y\<close> not zero\<close>
  int_truediv :: "int \<Rightarrow> int \<Rightarrow> 'a"      \<comment> \<open>\<^verbatim>\<open>a / b\<close> for integers, \<open>b\<close> not zero\<close>

text \<open>The three divisions of the source: \<^verbatim>\<open>ZeroDivisionError\<close> when the divisor is zero.\<close>

definition int_div_int :: "'a arithmetic \<Rightarrow> int \<Rightarrow> int \<Rightarrow> py_error + 'a" where
  "int_div_int ar a b = (if b = 0 then Inl ZeroDivisionError else Inr (int_truediv ar a b))"

definition int_div_float :: "'a::zero arithmetic \<Rightarrow> int \<Rightarrow> 'a \<Rightarrow> py_error + 'a" where
  "int_div_float ar a y =
     (if y = 0 then Inl ZeroDivisionError else Inr (float_div ar (int_to_float ar a) y))"

definition float_div_int :: "'a arithmetic \<Rightarrow> 'a \<Rightarrow> int \<Rightarrow> py_error + 'a" where
  "float_div_int ar x b =
     (if b = 0 then Inl ZeroDivisionError else Inr (float_div ar x (int_to_float ar b)))"

subsection \<open>LoadTestResult.get\_statistics\<close>

record 'a statistics =
  stat_total_requests :: int
  stat_successful_requests :: int
  stat_failed_requests :: int
  success_rate :: 'a
  total_time :: 'a
  requests_per_second :: 'a
  avg_response_time :: 'a
  min_response_time :: 'a
  max_response_time :: 'a
  median_response_time :: 'a
  p95_response_time :: 'a
  p99_response_time :: 'a

text \<open>\<^verbatim>\<open>min(xs)\<close> and \<^verbatim>\<open>max(xs)\<close>: \<^verbatim>\<open>ValueError\<close> on the empty list.\<close>

definition py_min :: "'a::linorder list \<Rightarrow> py_error + 'a" where
  "py_min xs = (case xs of [] \<Rightarrow> Inl ValueError | x # ys \<Rightarrow> Inr (fold min ys x))"

definition py_max :: "'a::linorder list \<Rightarrow> py_error + 'a" where
  "py_max xs = (case xs of [] \<Rightarrow> Inl ValueError | x # ys \<Rightarrow> Inr (fold max ys x))"

text \<open>
  \<^verbatim>\<open>self.end_time - self.start_time if self.end_time and self.start_time else 0\<close>: a clock
  reading is false when it is \<^verbatim>\<open>None\<close> or zero.
\<close>

definition elapsed :: "'a::zero arithmetic \<Rightarrow> 'a option \<Rightarrow> 'a option \<Rightarrow> 'a" where
  "elapsed ar finish start =
     (case finish of
        None \<Rightarrow> 0
      | Some e \<Rightarrow>
          (case start of
             None \<Rightarrow> 0
           | Some s \<Rightarrow> if e \<noteq> 0 \<and> s \<noteq> 0 then float_sub ar e s else 0))"

text \<open>
  \<^verbatim>\<open>LoadTestResult.get_statistics\<close>. The result is \<open>None\<close> for the empty dictionary
  \<^verbatim>\<open>{}\<close>. The entries of the dictionary are evaluated in the order of the source.
\<close>

definition get_statistics ::
  "'a::{linorder,zero} arithmetic \<Rightarrow> 'a LoadTestResult \<Rightarrow> py_error + 'a statistics option" where
  "get_statistics ar self =
     (if response_times self = [] then Inr None
      else
        (let sorted_times = sort (response_times self);
             total = elapsed ar (end_time self) (start_time self)
         in
         bind_res (if total_requests self > 0
                   then bind_res (int_div_int ar (successful_requests self)
                                    (total_requests self))
                          (\<lambda>q. Inr (float_mul ar q (int_to_float ar 100)))
                   else Inr 0) (\<lambda>rate.
         bind_res (if total > 0 then int_div_float ar (total_requests self) total
                   else Inr 0) (\<lambda>rps.
         bind_res (float_div_int ar (float_sum ar (response_times self))
                     (int (length (response_times self)))) (\<lambda>avg.
         bind_res (py_min (response_times self)) (\<lambda>least.
         bind_res (py_max (response_times self)) (\<lambda>greatest.
         bind_res (py_index sorted_times (median_index (length sorted_times))) (\<lambda>median.
         bind_res (if length sorted_times > 0
                   then py_index sorted_times (p95_index (length sorted_times))
                   else Inr 0) (\<lambda>p95.
         bind_res (if length sorted_times > 0
                   then py_index sorted_times (p99_index (length sorted_times))
                   else Inr 0) (\<lambda>p99.
         Inr (Some \<lparr>stat_total_requests = total_requests self,
                    stat_successful_requests = successful_requests self,
                    stat_failed_requests = failed_requests self,
                    success_rate = rate,
                    total_time = total,
                    requests_per_second = rps,
                    avg_response_time = avg,
                    min_response_time = least,
                    max_response_time = greatest,
                    median_response_time = median,
                    p95_response_time = p95,
                    p99_response_time = p99\<rparr>)))))))))))"

subsection \<open>socket\_load\_test.py: SocketTestResult.get\_statistics\<close>

text \<open>
  \<^verbatim>\<open>SocketTestResult\<close> keeps counters, the three event counters (each a
  \<^verbatim>\<open>defaultdict(int)\<close>, here an association list), the connection times and, for each
  event name, the list of response times. \<^verbatim>\<open>client_states\<close> is not read by
  \<^verbatim>\<open>get_statistics\<close>.
\<close>

record 'a SocketTestResult =
  total_clients :: int
  connected_clients :: int
  disconnected_clients :: int
  failed_connections :: int
  events_sent :: "(string \<times> int) list"
  events_received :: "(string \<times> int) list"
  events_failed :: "(string \<times> int) list"
  connection_times :: "'a list"
  event_response_times :: "(string \<times> 'a list) list"
  socket_error_messages :: "string list"
  socket_start_time :: "'a option"
  socket_end_time :: "'a option"

record 'a time_statistics =
  ts_avg :: 'a
  ts_min :: 'a
  ts_max :: 'a
  ts_median :: 'a
  ts_p95 :: 'a
  ts_p99 :: 'a

record 'a socket_statistics =
  ss_total_clients :: int
  ss_connected_clients :: int
  ss_disconnected_clients :: int
  ss_failed_connections :: int
  connection_success_rate :: 'a
  ss_total_time :: 'a
  total_events_sent :: int
  total_events_received :: int
  ss_events_sent :: "(string \<times> int) list"
  ss_events_received :: "(string \<times> int) list"
  ss_events_failed :: "(string \<times> int) list"
  connection_time :: "'a time_statistics option"
  ss_event_response_times :: "(string \<times> 'a time_statistics) list"

text \<open>
  The dictionary of six entries that \<^verbatim>\<open>get_statistics\<close> builds for a non-empty list of
  times; the source writes it out twice, for the connection times and for the times of
  each event.
\<close>

definition time_stats ::
  "'a::{linorder,zero} arithmetic \<Rightarrow> 'a list \<Rightarrow> py_error + 'a time_statistics" where
  "time_stats ar time_list =
     (let sorted_times = sort time_list
      in
      bind_res (float_div_int ar (float_sum ar time_list) (int (length time_list))) (\<lambda>avg.
      bind_res (py_min time_list) (\<lambda>least.
      bind_res (py_max time_list) (\<lambda>greatest.
      bind_res (py_index sorted_times (median_index (length sorted_times))) (\<lambda>median.
      bind_res (if length sorted_times > 0
                then py_index sorted_times (p95_index (length sorted_times))
                else Inr 0) (\<lambda>p95.
      bind_res (if length sorted_times > 0
                then py_index sorted_times (p99_index (length sorted_times))
                else Inr 0) (\<lambda>p99.
      Inr \<lparr>ts_avg = avg, ts_min = least, ts_max = greatest,
           ts_median = median, ts_p95 = p95, ts_p99 = p99\<rparr>)))))))"

text \<open>
  \<^verbatim>\<open>for event_name, times in self.event_response_times.items(): if times: ...\<close>
\<close>

fun event_stats ::
  "'a::{linorder,zero} arithmetic \<Rightarrow> (string \<times> 'a list) list
     \<Rightarrow> py_error + (string \<times> 'a time_statistics) list" where
  "event_stats ar [] = Inr []"
| "event_stats ar ((event_name, time_list) # rest) =
     (if time_list \<noteq> []
      then bind_res (time_stats ar time_list) (\<lambda>st.
           bind_res (event_stats ar rest) (\<lambda>sts. Inr ((event_name, st) # sts)))
      else event_stats ar rest)"

definition socket_get_statistics ::
  "'a::{linorder,zero} arithmetic \<Rightarrow> 'a SocketTestResult \<Rightarrow> py_error + 'a socket_statistics" where
  "socket_get_statistics ar self =
     (let total = elapsed ar (socket_end_time self) (socket_start_time self)
      in
      bind_res (if total_clients self > 0
                then bind_res (int_div_int ar (connected_clients self) (total_clients self))
                       (\<lambda>q. Inr (float_mul ar q (int_to_float ar 100)))
                else Inr 0) (\<lambda>rate.
      bind_res (if connection_times self \<noteq> []
                then bind_res (time_stats ar (connection_times self)) (\<lambda>st. Inr (Some st))
                else Inr None) (\<lambda>conn.
      bind_res (event_stats ar (event_response_times self)) (\<lambda>evs.
      Inr \<lparr>ss_total_clients = total_clients self,
           ss_connected_clients = connected_clients self,
           ss_disconnected_clients = disconnected_clients self,
           ss_failed_connections = failed_connections self,
           connection_success_rate = rate,
           ss_total_time = total,
           total_events_sent = sum_list (map snd (events_sent self)),
           total_events_received = sum_list (map snd (events_received self)),
           ss_events_sent = events_sent self,
           ss_events_received = events_received self,
           ss_events_failed = events_failed self,
           connection_time = conn,
           ss_event_response_times = evs\<rparr>))))"

subsection \<open>Double precision\<close>

text \<open>
  The arithmetic of CPython on doubles, for numbers in the normal range of binary64: a
  double is the rational number it denotes, and every operation gives the exact result
  rounded to 53 significant bits, to nearest and ties to even. \<open>round_positive x\<close>
  rounds the positive number \<open>x\<close>: it scales \<open>x\<close> by a power of two that makes it larger
  than \<open>2 ^ 55\<close>, takes the integer part, adds a last bit that says whether anything is
  left, and rounds. \<^verbatim>\<open>sum\<close> adds from the left, from \<open>0\<close>, rounding each sum (CPython up
  to 3.11). The quotient of two integers is rounded once.
\<close>

definition round_positive :: "rat \<Rightarrow> rat" where
  "round_positive x =
     (let s = 55 + bit_length (nat \<lceil>1 / x\<rceil>);
          y = x * 2 ^ s;
          t = nat \<lfloor>y\<rfloor>;
          sticky = (if of_nat t = y then 0 else 1)
      in of_nat (round53 (2 * t + sticky)) / 2 ^ (s + 1))"

definition round_double :: "rat \<Rightarrow> rat" where
  "round_double x =
     (if x = 0 then 0
      else if x < 0 then - round_positive (- x)
      else round_positive x)"

definition double_arithmetic :: "rat arithmetic" where
  "double_arithmetic =
     \<lparr>int_to_float = (\<lambda>n. round_double (of_int n)),
      float_sum = foldl (\<lambda>s x. round_double (s + x)) 0,
      float_sub = (\<lambda>x y. round_double (x - y)),
      float_mul = (\<lambda>x y. round_double (x * y)),
      float_div = (\<lambda>x y. round_double (x / y)),
      int_truediv = (\<lambda>a b. round_double (of_int a / of_int b))\<rparr>"

subsection \<open>Sample results\<close>

text \<open>
  The results of two small runs, and the result of a run of three requests that took
  \<^verbatim>\<open>0.1\<close> seconds each (the double \<open>3602879701896397 / 2 ^ 55\<close>), two of them successful.
\<close>

definition sample_result :: "rat LoadTestResult" where
  "sample_result =
     \<lparr>total_requests = 4, successful_requests = 3, failed_requests = 1,
      response_times = [3, 1 / 2, 2, 1 / 2], error_messages = [''HTTP 500: no''],
      start_time = Some 10, end_time = Some 18\<rparr>"

definition sample_socket_result :: "rat SocketTestResult" where
  "sample_socket_result =
     \<lparr>total_clients = 2, connected_clients = 1, disconnected_clients = 0,
      failed_connections = 1, events_sent = [(''join_activity'', 1)],
      events_received = [(''joined_activity'', 1)], events_failed = [],
      connection_times = [1 / 2, 1 / 4], event_response_times = [(''joined_activity'', [1 / 8])],
      socket_error_messages = [], socket_start_time = Some 1, socket_end_time = Some 2\<rparr>"

definition tenths_result :: "rat LoadTestResult" where
  "tenths_result =
     \<lparr>total_requests = 3, successful_requests = 2, failed_requests = 1,
      response_times = [3602879701896397 / 36028797018963968,
                        3602879701896397 / 36028797018963968,
                        3602879701896397 / 36028797018963968],
      error_messages = [''HTTP 500: no''], start_time = None, end_time = None\<rparr>"

section \<open>app.py: data\<close>

text \<open>
  JSON values, as \<^verbatim>\<open>request.json\<close> delivers them and \<^verbatim>\<open>jsonify\<close> takes them (numbers with
  a fraction are left out).
\<close>

datatype json =
    JNull
  | JBool bool
  | JInt int
  | JStr string
  | JList "json list"
  | JObj "(string \<times> json) list"

text \<open>
  The four tables of \<^verbatim>\<open>init_db\<close>, one record per row. A nullable column is an
  \<open>option\<close>; a \<^verbatim>\<open>NOT NULL\<close> column is not. A \<^verbatim>\<open>TIMESTAMP\<close> is a reading of the
  database clock, a natural number. The \<^verbatim>\<open>JSONB\<close> column \<open>groups\<close> holds \<^verbatim>\<open>NULL\<close> or a
  JSON array, which is what \<^verbatim>\<open>create_activity\<close> and \<^verbatim>\<open>update_activity\<close> store there.
  Column widths (\<^verbatim>\<open>VARCHAR(n)\<close>, 32-bit \<^verbatim>\<open>INTEGER\<close>) are not modelled: strings and
  integers are unbounded.
\<close>

record question =
  q_id :: int
  q_type :: string
  q_content :: string
  q_options :: "json option"
  q_time_limit :: "int option"
  q_answer_limit :: "int option"
  q_created_at :: nat

record activity =
  a_id :: int
  a_name :: string
  a_status :: "string option"
  a_current_question_id :: "int option"
  a_groups_count :: "int option"
  a_groups :: "json list option"
  a_display_mode :: "string option"
  a_started_at :: "nat option"
  a_ended_at :: "nat option"
  a_created_at :: nat

record user =
  u_id :: int
  u_activity_id :: "int option"
  u_name :: string
  u_group_name :: "string option"
  u_joined_at :: nat

record answer =
  ans_id :: int
  ans_activity_id :: "int option"
  ans_question_id :: "int option"
  ans_user_id :: "int option"
  ans_answer_text :: "string option"
  ans_submitted_at :: nat

text \<open>
  The database: the rows of each table in insertion order, the next value of each
  \<^verbatim>\<open>SERIAL\<close> sequence, and the clock that \<^verbatim>\<open>CURRENT_TIMESTAMP\<close> reads.
\<close>

record database =
  questions :: "question list"
  activities :: "activity list"
  users :: "user list"
  answers :: "answer list"
  questions_id_seq :: int
  activities_id_seq :: int
  users_id_seq :: int
  answers_id_seq :: int
  clock :: nat

text \<open>The database after \<^verbatim>\<open>init_db\<close> on a fresh server.\<close>

definition empty_database :: database where
  "empty_database =
     \<lparr>questions = [], activities = [], users = [], answers = [],
      questions_id_seq = 1, activities_id_seq = 1, users_id_seq = 1, answers_id_seq = 1,
      clock = 0\<rparr>"

section \<open>app.py: requests, responses and events\<close>

text \<open>
  A request body is a record of the keys the handler reads, each with the JSON type of
  the column it is written to. A key read with \<^verbatim>\<open>data[...]\<close> is present; its value is
  \<open>None\<close> for JSON \<^verbatim>\<open>null\<close>. A key read with \<^verbatim>\<open>data.get(...)\<close> is \<open>None\<close> when it is absent
  or \<^verbatim>\<open>null\<close>. A key tested with \<^verbatim>\<open>in data\<close>, or read with a default, is \<open>None\<close> when
  absent and \<open>Some v\<close> when present.
\<close>

record question_data =
  qd_type :: "string option"
  qd_content :: "string option"
  qd_options :: "json option"
  qd_time_limit :: "int option"
  qd_answer_limit :: "int option"

record activity_data =
  ad_name :: "string option"
  ad_groups_count :: "int option"
  ad_groups :: "json list option"

record activity_update =
  au_status :: "string option option"
  au_current_question_id :: "int option option"
  au_groups_count :: "int option option"
  au_groups :: "json list option option"
  au_display_mode :: "string option option"
  au_projected_answer :: "json option"
  au_stats_limit :: "json option"

record join_data =
  jd_activity_id :: "int option"
  jd_name :: "string option"
  jd_group_name :: "string option"

record answer_data =
  sd_activity_id :: "int option"
  sd_question_id :: "int option"
  sd_user_id :: "int option"
  sd_answer_text :: "string option"

text \<open>
  A row of the join in \<^verbatim>\<open>get_activity\<close>:
  \<^verbatim>\<open>SELECT a.*, u.name as user_name, u.group_name FROM answers a JOIN users u ...\<close>.
\<close>

record joined_answer =
  ja_answer :: answer
  ja_user_name :: string
  ja_group_name :: "string option"

text \<open>The dictionaries handed to \<^verbatim>\<open>jsonify\<close>, and the response with its status code.\<close>

datatype body =
    IdBody int                                        \<comment> \<open>\<^verbatim>\<open>{'id': n}\<close>\<close>
  | SuccessBody                                       \<comment> \<open>\<^verbatim>\<open>{'success': True}\<close>\<close>
  | ErrorBody string "string option"                  \<comment> \<open>\<^verbatim>\<open>{'error': e}\<close>, with \<^verbatim>\<open>'error_code'\<close> or not\<close>
  | ActivityBody activity "user list" "joined_answer list"
      \<comment> \<open>the row with \<^verbatim>\<open>'users'\<close> and \<^verbatim>\<open>'answers'\<close> added\<close>
  | GroupsBody "json list" "int option"               \<comment> \<open>\<^verbatim>\<open>{'groups': l, 'groups_count': n}\<close>\<close>

type_synonym response = "body \<times> nat"

text \<open>The dictionaries handed to \<^verbatim>\<open>socketio.emit\<close>.\<close>

datatype payload =
    IdPayload int                                     \<comment> \<open>\<^verbatim>\<open>{'id': n}\<close>\<close>
  | ActivityUpdatedPayload int activity_update        \<comment> \<open>\<^verbatim>\<open>{'activity_id': n, 'updates': data}\<close>\<close>
  | UserJoinedPayload "int option" int                \<comment> \<open>\<^verbatim>\<open>{'activity_id': a, 'user_id': n}\<close>\<close>
  | AnswerSubmittedPayload "int option" "int option"  \<comment> \<open>\<^verbatim>\<open>{'activity_id': a, 'question_id': q}\<close>\<close>
  | DisplayUpdatePayload int "string option" "json option" "json option"
      \<comment> \<open>\<^verbatim>\<open>{'activity_id': n, 'display_mode': m}\<close>, with \<^verbatim>\<open>'answer'\<close> and \<^verbatim>\<open>'stats_limit'\<close> or not\<close>

text \<open>
  What a handler does besides returning: it commits its transaction, and it broadcasts
  events. A call yields the database it leaves, its effects in order, and its response or
  the exception it raises (which Flask turns into a 500).
\<close>

datatype effect = Commit | Emit string payload

record outcome =
  db_after :: database
  effects :: "effect list"
  returns :: "py_error + response"

definition raised :: "database \<Rightarrow> effect list \<Rightarrow> py_error \<Rightarrow> outcome" where
  "raised db fx e = \<lparr>db_after = db, effects = fx, returns = Inl e\<rparr>"

definition returned :: "database \<Rightarrow> effect list \<Rightarrow> response \<Rightarrow> outcome" where
  "returned db fx r = \<lparr>db_after = db, effects = fx, returns = Inr r\<rparr>"

text \<open>Truthiness of an optional integer: \<^verbatim>\<open>None\<close> and \<open>0\<close> are false.\<close>

fun truthy_int :: "int option \<Rightarrow> bool" where
  "truthy_int None = False"
| "truthy_int (Some n) = (n \<noteq> 0)"

section \<open>app.py: the statements\<close>

text \<open>
  The constraints of the schema that a statement can violate: \<^verbatim>\<open>NOT NULL\<close> and
  \<^verbatim>\<open>REFERENCES\<close>. A reference is satisfied by \<^verbatim>\<open>NULL\<close> and by the id of a row. An
  \<^verbatim>\<open>INSERT\<close> takes the next value of the sequence whether it succeeds or not.
\<close>

definition not_null_violation :: py_error where
  "not_null_violation = IntegrityError ''null value violates not-null constraint''"

definition foreign_key_violation :: py_error where
  "foreign_key_violation = IntegrityError ''violates foreign key constraint''"

definition cursor_closed :: py_error where
  "cursor_closed = InterfaceError ''cursor already closed''"

definition references :: "int list \<Rightarrow> int option \<Rightarrow> bool" where
  "references ids v = (case v of None \<Rightarrow> True | Some i \<Rightarrow> i \<in> set ids)"

text \<open>
  \<^verbatim>\<open>INSERT INTO questions (type, content, options, time_limit, answer_limit)
  VALUES (...) RETURNING id\<close>
\<close>

definition insert_question ::
  "string option \<Rightarrow> string option \<Rightarrow> json \<Rightarrow> int option \<Rightarrow> int option \<Rightarrow> database
     \<Rightarrow> database \<times> (py_error + int)" where
  "insert_question ty content opts time_limit answer_limit db =
     (let new_id = questions_id_seq db;
          db = db\<lparr>questions_id_seq := new_id + 1\<rparr>
      in case ty of
           None \<Rightarrow> (db, Inl not_null_violation)
         | Some t \<Rightarrow>
             (case content of
                None \<Rightarrow> (db, Inl not_null_violation)
              | Some c \<Rightarrow>
                  (db\<lparr>questions := questions db @
                        [\<lparr>q_id = new_id, q_type = t, q_content = c, q_options = Some opts,
                          q_time_limit = time_limit, q_answer_limit = answer_limit,
                          q_created_at = clock db\<rparr>]\<rparr>,
                   Inr new_id)))"

text \<open>
  \<^verbatim>\<open>UPDATE questions SET type = %s, content = %s, options = %s, time_limit = %s,
  answer_limit = %s WHERE id = %s\<close>. The constraints are checked on the rows it changes.
\<close>

definition update_question_row ::
  "int \<Rightarrow> string option \<Rightarrow> string option \<Rightarrow> json \<Rightarrow> int option \<Rightarrow> int option \<Rightarrow> database
     \<Rightarrow> py_error + database" where
  "update_question_row question_id ty content opts time_limit answer_limit db =
     (if \<not> list_ex (\<lambda>q. q_id q = question_id) (questions db) then Inr db
      else
        (case ty of
           None \<Rightarrow> Inl not_null_violation
         | Some t \<Rightarrow>
             (case content of
                None \<Rightarrow> Inl not_null_violation
              | Some c \<Rightarrow>
                  Inr (db\<lparr>questions :=
                         map (\<lambda>q. if q_id q = question_id
                                   then q\<lparr>q_type := t, q_content := c, q_options := Some opts,
                                          q_time_limit := time_limit,
                                          q_answer_limit := answer_limit\<rparr>
                                   else q)
                           (questions db)\<rparr>))))"

text \<open>
  \<^verbatim>\<open>DELETE FROM questions WHERE id = %s\<close>: refused while an answer refers to the question.
\<close>

definition delete_question_row :: "int \<Rightarrow> database \<Rightarrow> py_error + database" where
  "delete_question_row question_id db =
     (if list_ex (\<lambda>q. q_id q = question_id) (questions db)
         \<and> list_ex (\<lambda>a. ans_question_id a = Some question_id) (answers db)
      then Inl foreign_key_violation
      else Inr (db\<lparr>questions := filter (\<lambda>q. q_id q \<noteq> question_id) (questions db)\<rparr>))"

text \<open>
  \<^verbatim>\<open>INSERT INTO activities (name, status, groups_count, groups) VALUES (...) RETURNING id\<close>;
  \<open>display_mode\<close> takes its default \<^verbatim>\<open>'none'\<close>.
\<close>

definition insert_activity ::
  "string option \<Rightarrow> string option \<Rightarrow> int option \<Rightarrow> json list option \<Rightarrow> database
     \<Rightarrow> database \<times> (py_error + int)" where
  "insert_activity name status groups_count groups db =
     (let new_id = activities_id_seq db;
          db = db\<lparr>activities_id_seq := new_id + 1\<rparr>
      in case name of
           None \<Rightarrow> (db, Inl not_null_violation)
         | Some n \<Rightarrow>
             (db\<lparr>activities := activities db @
                   [\<lparr>a_id = new_id, a_name = n, a_status = status,
                     a_current_question_id = None, a_groups_count = groups_count,
                     a_groups = groups, a_display_mode = Some ''none'',
                     a_started_at = None, a_ended_at = None, a_created_at = clock db\<rparr>]\<rparr>,
              Inr new_id))"

text \<open>
  \<^verbatim>\<open>INSERT INTO users (activity_id, name, group_name) VALUES (...) RETURNING id\<close>
\<close>

definition insert_user ::
  "int option \<Rightarrow> string option \<Rightarrow> string option \<Rightarrow> database \<Rightarrow> database \<times> (py_error + int)" where
  "insert_user activity_id name group_name db =
     (let new_id = users_id_seq db;
          db = db\<lparr>users_id_seq := new_id + 1\<rparr>
      in case name of
           None \<Rightarrow> (db, Inl not_null_violation)
         | Some n \<Rightarrow>
             if \<not> references (map a_id (activities db)) activity_id
             then (db, Inl foreign_key_violation)
             else
               (db\<lparr>users := users db @
                     [\<lparr>u_id = new_id, u_activity_id = activity_id, u_name = n,
                       u_group_name = group_name, u_joined_at = clock db\<rparr>]\<rparr>,
                Inr new_id))"

text \<open>
  \<^verbatim>\<open>INSERT INTO answers (activity_id, question_id, user_id, answer_text) VALUES (...)
  RETURNING id\<close>
\<close>

definition insert_answer ::
  "int option \<Rightarrow> int option \<Rightarrow> int option \<Rightarrow> string option \<Rightarrow> database
     \<Rightarrow> database \<times> (py_error + int)" where
  "insert_answer activity_id question_id user_id answer_text db =
     (let new_id = answers_id_seq db;
          db = db\<lparr>answers_id_seq := new_id + 1\<rparr>
      in if \<not> references (map a_id (activities db)) activity_id
            \<or> \<not> references (map q_id (questions db)) question_id
            \<or> \<not> references (map u_id (users db)) user_id
         then (db, Inl foreign_key_violation)
         else
           (db\<lparr>answers := answers db @
                 [\<lparr>ans_id = new_id, ans_activity_id = activity_id,
                   ans_question_id = question_id, ans_user_id = user_id,
                   ans_answer_text = answer_text, ans_submitted_at = clock db\<rparr>]\<rparr>,
            Inr new_id))"

text \<open>\<^verbatim>\<open>cur.fetchone()\<close> after a \<^verbatim>\<open>SELECT\<close>: the first row, or \<^verbatim>\<open>None\<close>.\<close>

definition fetchone :: "'a list \<Rightarrow> 'a option" where
  "fetchone rows = (case rows of [] \<Rightarrow> None | r # _ \<Rightarrow> Some r)"

text \<open>An SQL comparison \<^verbatim>\<open>column = %s\<close>: true when both sides are the same non-null value.\<close>

definition sql_eq :: "'a option \<Rightarrow> 'a option \<Rightarrow> bool" where
  "sql_eq column v = (case column of None \<Rightarrow> False | Some c \<Rightarrow> v = Some c)"

section \<open>app.py: the handlers that write\<close>

text \<open>\<^verbatim>\<open>POST /api/questions\<close>\<close>

definition create_question :: "question_data \<Rightarrow> database \<Rightarrow> outcome" where
  "create_question data db =
     (let answer_limit = (if truthy_int (qd_answer_limit data) then qd_answer_limit data else None);
          opts = (case qd_options data of None \<Rightarrow> JList [] | Some v \<Rightarrow> v)
      in case insert_question (qd_type data) (qd_content data) opts (qd_time_limit data)
                answer_limit db of
           (db, Inl e) \<Rightarrow> raised db [] e
         | (db, Inr question_id) \<Rightarrow>
             returned db [Commit, Emit ''question_created'' (IdPayload question_id)]
               (IdBody question_id, 201))"

text \<open>\<^verbatim>\<open>PUT /api/questions/<int:question_id>\<close>\<close>

definition update_question :: "int \<Rightarrow> question_data \<Rightarrow> database \<Rightarrow> outcome" where
  "update_question question_id data db =
     (let answer_limit = (if truthy_int (qd_answer_limit data) then qd_answer_limit data else None);
          opts = (case qd_options data of None \<Rightarrow> JList [] | Some v \<Rightarrow> v)
      in case update_question_row question_id (qd_type data) (qd_content data) opts
                (qd_time_limit data) answer_limit db of
           Inl e \<Rightarrow> raised db [] e
         | Inr db \<Rightarrow>
             returned db [Commit, Emit ''question_updated'' (IdPayload question_id)]
               (SuccessBody, 200))"

text \<open>\<^verbatim>\<open>DELETE /api/questions/<int:question_id>\<close>\<close>

definition delete_question :: "int \<Rightarrow> database \<Rightarrow> outcome" where
  "delete_question question_id db =
     (case delete_question_row question_id db of
        Inl e \<Rightarrow> raised db [] e
      | Inr db \<Rightarrow>
          returned db [Commit, Emit ''question_deleted'' (IdPayload question_id)]
            (SuccessBody, 200))"

text \<open>
  \<^verbatim>\<open>POST /api/activities\<close>. A non-empty list of group names is stored, and gives the
  group count when the request has none.
\<close>

definition create_activity :: "activity_data \<Rightarrow> database \<Rightarrow> outcome" where
  "create_activity data db =
     (let groups_count = ad_groups_count data;
          groups = (case ad_groups data of None \<Rightarrow> [] | Some l \<Rightarrow> l);
          groups_json = (if groups \<noteq> [] then Some groups else None);
          groups_count = (if groups \<noteq> [] \<and> \<not> truthy_int groups_count
                          then Some (int (length groups)) else groups_count)
      in case insert_activity (ad_name data) (Some ''preparing'') groups_count groups_json db of
           (db, Inl e) \<Rightarrow> raised db [] e
         | (db, Inr activity_id) \<Rightarrow>
             returned db [Commit, Emit ''activity_created'' (IdPayload activity_id)]
               (IdBody activity_id, 201))"

text \<open>
  \<^verbatim>\<open>PUT /api/activities/<int:activity_id>\<close>. The handler collects the assignments of its
  \<^verbatim>\<open>UPDATE\<close> from the keys of the body, in the order of the source.
\<close>

datatype assignment =
    SetStatus "string option"              \<comment> \<open>\<^verbatim>\<open>status = %s\<close>\<close>
  | SetStartedAtNow                        \<comment> \<open>\<^verbatim>\<open>started_at = CURRENT_TIMESTAMP\<close>\<close>
  | SetCurrentQuestionId "int option"      \<comment> \<open>\<^verbatim>\<open>current_question_id = %s\<close>\<close>
  | SetGroupsCount "int option"            \<comment> \<open>\<^verbatim>\<open>groups_count = %s\<close>\<close>
  | SetGroups "json list option"           \<comment> \<open>\<^verbatim>\<open>groups = %s\<close>\<close>
  | SetDisplayMode "string option"         \<comment> \<open>\<^verbatim>\<open>display_mode = %s\<close>\<close>

fun assign :: "nat \<Rightarrow> assignment \<Rightarrow> activity \<Rightarrow> activity" where
  "assign now (SetStatus v) a = a\<lparr>a_status := v\<rparr>"
| "assign now SetStartedAtNow a = a\<lparr>a_started_at := Some now\<rparr>"
| "assign now (SetCurrentQuestionId v) a = a\<lparr>a_current_question_id := v\<rparr>"
| "assign now (SetGroupsCount v) a = a\<lparr>a_groups_count := v\<rparr>"
| "assign now (SetGroups v) a = a\<lparr>a_groups := v\<rparr>"
| "assign now (SetDisplayMode v) a = a\<lparr>a_display_mode := v\<rparr>"

text \<open>\<^verbatim>\<open>UPDATE activities SET ... WHERE id = %s\<close>\<close>

definition update_activity_row :: "int \<Rightarrow> assignment list \<Rightarrow> database \<Rightarrow> database" where
  "update_activity_row activity_id updates db =
     db\<lparr>activities :=
          map (\<lambda>a. if a_id a = activity_id then fold (assign (clock db)) updates a else a)
            (activities db)\<rparr>"

definition status_updates :: "activity_update \<Rightarrow> assignment list" where
  "status_updates data =
     (case au_status data of
        None \<Rightarrow> []
      | Some status \<Rightarrow>
          SetStatus status # (if status = Some ''active'' then [SetStartedAtNow] else []))"

definition current_question_updates :: "activity_update \<Rightarrow> assignment list" where
  "current_question_updates data =
     (case au_current_question_id data of None \<Rightarrow> [] | Some v \<Rightarrow> [SetCurrentQuestionId v])"

definition groups_count_updates :: "activity_update \<Rightarrow> assignment list" where
  "groups_count_updates data =
     (case au_groups_count data of
        None \<Rightarrow> []
      | Some v \<Rightarrow> [SetGroupsCount (if truthy_int v then v else None)])"

definition groups_updates :: "activity_update \<Rightarrow> assignment list" where
  "groups_updates data =
     (case au_groups data of
        None \<Rightarrow> []
      | Some None \<Rightarrow> [SetGroups None]
      | Some (Some l) \<Rightarrow>
          if l \<noteq> []
          then SetGroups (Some l)
                 # (if au_groups_count data = None then [SetGroupsCount (Some (int (length l)))]
                    else [])
          else [SetGroups None])"

definition display_mode_updates :: "activity_update \<Rightarrow> assignment list" where
  "display_mode_updates data =
     (case au_display_mode data of None \<Rightarrow> [] | Some v \<Rightarrow> [SetDisplayMode v])"

definition collected_updates :: "activity_update \<Rightarrow> assignment list" where
  "collected_updates data =
     status_updates data @ current_question_updates data @ groups_count_updates data
       @ groups_updates data @ display_mode_updates data"

text \<open>
  The cursor of the handler. \<^verbatim>\<open>cur.close()\<close> closes it, and \<^verbatim>\<open>cur.execute\<close> on a closed
  cursor raises \<^verbatim>\<open>psycopg2.InterfaceError\<close>.
\<close>

record cursor =
  closed :: bool

definition conn_cursor :: cursor where
  "conn_cursor = \<lparr>closed = False\<rparr>"

definition cur_close :: "cursor \<Rightarrow> cursor" where
  "cur_close cur = cur\<lparr>closed := True\<rparr>"

text \<open>
  \<^verbatim>\<open>cur.execute('SELECT display_mode FROM activities WHERE id = %s', ...)\<close> and
  \<^verbatim>\<open>cur.fetchone()\<close>. The cursor is a plain one: a row is the tuple of its one column.
\<close>

definition select_display_mode ::
  "cursor \<Rightarrow> int \<Rightarrow> database \<Rightarrow> py_error + string option option" where
  "select_display_mode cur activity_id db =
     (if closed cur then Inl cursor_closed
      else Inr (fetchone (map a_display_mode
                           (filter (\<lambda>a. a_id a = activity_id) (activities db)))))"

text \<open>The characters of a string: a character ends before the next byte that starts one.\<close>

function chars :: "string \<Rightarrow> string list" where
  "chars [] = []"
| "chars (c # cs) =
     (c # takeWhile continuation_byte cs) # chars (dropWhile continuation_byte cs)"
  by pat_completeness auto
termination
  by (relation "measure length") (simp_all add: less_Suc_eq_le length_dropWhile_le)

text \<open>
  \<^verbatim>\<open>dict(row)\<close> for a tuple of one column: each element of the tuple has to be a pair, and
  only a string of two characters is one.
\<close>

definition dict_of_row :: "string option \<Rightarrow> py_error + (string \<times> string) list" where
  "dict_of_row column =
     (case column of
        None \<Rightarrow> Inl TypeError
      | Some s \<Rightarrow> (case chars s of [k, v] \<Rightarrow> Inr [(k, v)] | _ \<Rightarrow> Inl ValueError))"

text \<open>\<^verbatim>\<open>dict(row).get('display_mode') or 'question'\<close>\<close>

definition display_mode_or_question :: "(string \<times> string) list \<Rightarrow> string" where
  "display_mode_or_question d =
     (case map_of d ''display_mode'' of
        None \<Rightarrow> ''question''
      | Some m \<Rightarrow> if m \<noteq> [] then m else ''question'')"

definition update_activity :: "int \<Rightarrow> activity_update \<Rightarrow> database \<Rightarrow> outcome" where
  "update_activity activity_id data db =
     (let cur = conn_cursor;
          updates = collected_updates data;
          db = (if updates \<noteq> [] then update_activity_row activity_id updates db else db);
          fx = (if updates \<noteq> [] then [Commit] else []);
          cur = cur_close cur;
          fx = fx @ [Emit ''activity_updated'' (ActivityUpdatedPayload activity_id data)]
      in case au_display_mode data of
           Some display_mode \<Rightarrow>
             returned db
               (fx @ [Emit ''display_update''
                        (DisplayUpdatePayload activity_id display_mode
                           (au_projected_answer data) (au_stats_limit data))])
               (SuccessBody, 200)
         | None \<Rightarrow>
             if au_status data = Some (Some ''active'') \<and> au_current_question_id data \<noteq> None
             then
               (case select_display_mode cur activity_id db of
                  Inl e \<Rightarrow> raised db fx e
                | Inr None \<Rightarrow> returned db fx (SuccessBody, 200)
                | Inr (Some row) \<Rightarrow>
                    (case dict_of_row row of
                       Inl e \<Rightarrow> raised db fx e
                     | Inr d \<Rightarrow>
                         returned db
                           (fx @ [Emit ''display_update''
                                    (DisplayUpdatePayload activity_id
                                       (Some (display_mode_or_question d)) None None)])
                           (SuccessBody, 200)))
             else returned db fx (SuccessBody, 200))"

text \<open>\<^verbatim>\<open>POST /api/users\<close>\<close>

definition join_activity :: "join_data \<Rightarrow> database \<Rightarrow> outcome" where
  "join_activity data db =
     (case insert_user (jd_activity_id data) (jd_name data) (jd_group_name data) db of
        (db, Inl e) \<Rightarrow> raised db [] e
      | (db, Inr user_id) \<Rightarrow>
          returned db [Commit, Emit ''user_joined'' (UserJoinedPayload (jd_activity_id data) user_id)]
            (IdBody user_id, 201))"

text \<open>
  \<^verbatim>\<open>POST /api/answers\<close>. The message of the refusal is
  \<^verbatim>\<open>f'...{answer_limit}...'\<close>, Chinese text around the limit.
\<close>

definition limit_message :: "int \<Rightarrow> string" where
  "limit_message answer_limit =
     [CHR 0xE6, CHR 0x82, CHR 0xA8, CHR 0xE5, CHR 0xB7, CHR 0xB2, CHR 0xE9, CHR 0x81, CHR 0x94,
      CHR 0xE5, CHR 0x88, CHR 0xB0, CHR 0xE6, CHR 0xAD, CHR 0xA4, CHR 0xE9, CHR 0xA1, CHR 0x8C,
      CHR 0xE7, CHR 0x9A, CHR 0x84, CHR 0xE5, CHR 0x9B, CHR 0x9E, CHR 0xE7, CHR 0xAD, CHR 0x94,
      CHR 0xE6, CHR 0xAC, CHR 0xA1, CHR 0xE6, CHR 0x95, CHR 0xB8, CHR 0xE9, CHR 0x99, CHR 0x90,
      CHR 0xE5, CHR 0x88, CHR 0xB6, CHR 0xEF, CHR 0xBC, CHR 0x88]
     @ str_int answer_limit
     @ [CHR 0xE6, CHR 0xAC, CHR 0xA1, CHR 0xEF, CHR 0xBC, CHR 0x89]"

text \<open>
  \<^verbatim>\<open>SELECT answer_limit FROM questions WHERE id = %s\<close> and \<^verbatim>\<open>fetchone\<close>: the row of the
  question, here its one column.
\<close>

definition select_answer_limit :: "int option \<Rightarrow> database \<Rightarrow> int option option" where
  "select_answer_limit question_id db =
     fetchone (map q_answer_limit
                (filter (\<lambda>q. sql_eq (Some (q_id q)) question_id) (questions db)))"

text \<open>
  \<^verbatim>\<open>SELECT COUNT(*) FROM answers WHERE question_id = %s AND user_id = %s\<close>
\<close>

definition count_answers :: "int option \<Rightarrow> int option \<Rightarrow> database \<Rightarrow> int" where
  "count_answers question_id user_id db =
     int (length (filter (\<lambda>a. sql_eq (ans_question_id a) question_id
                               \<and> sql_eq (ans_user_id a) user_id) (answers db)))"

text \<open>
  The limit that stops the submission, if one does:
  \<^verbatim>\<open>if question and question.get('answer_limit'): ... if answer_count >= answer_limit\<close>.
\<close>

definition limit_reached :: "answer_data \<Rightarrow> database \<Rightarrow> int option" where
  "limit_reached data db =
     (case select_answer_limit (sd_question_id data) db of
        None \<Rightarrow> None
      | Some column \<Rightarrow>
          if truthy_int column
          then (case column of
                  None \<Rightarrow> None
                | Some answer_limit \<Rightarrow>
                    if count_answers (sd_question_id data) (sd_user_id data) db \<ge> answer_limit
                    then Some answer_limit else None)
          else None)"

definition submit_answer :: "answer_data \<Rightarrow> database \<Rightarrow> outcome" where
  "submit_answer data db =
     (case limit_reached data db of
        Some answer_limit \<Rightarrow>
          returned db []
            (ErrorBody (limit_message answer_limit) (Some ''ANSWER_LIMIT_EXCEEDED''), 400)
      | None \<Rightarrow>
          (case insert_answer (sd_activity_id data) (sd_question_id data) (sd_user_id data)
                  (sd_answer_text data) db of
             (db, Inl e) \<Rightarrow> raised db [] e
           | (db, Inr answer_id) \<Rightarrow>
               returned db
                 [Commit, Emit ''answer_submitted''
                            (AnswerSubmittedPayload (sd_activity_id data) (sd_question_id data))]
                 (IdBody answer_id, 201)))"

section \<open>app.py: the handlers that read\<close>

text \<open>
  \<^verbatim>\<open>GET /api/activities/<int:activity_id>\<close>. The answers come
  \<^verbatim>\<open>ORDER BY a.question_id, a.submitted_at DESC\<close>; \<^verbatim>\<open>NULL\<close> sorts last.
\<close>

definition users_of_activity :: "int \<Rightarrow> database \<Rightarrow> user list" where
  "users_of_activity activity_id db =
     filter (\<lambda>u. u_activity_id u = Some activity_id) (users db)"

definition answer_order :: "joined_answer \<Rightarrow> (nat \<times> int) \<times> int" where
  "answer_order r =
     ((case ans_question_id (ja_answer r) of None \<Rightarrow> (1, 0) | Some q \<Rightarrow> (0, q)),
      - int (ans_submitted_at (ja_answer r)))"

definition join_users :: "answer \<Rightarrow> user list \<Rightarrow> joined_answer list" where
  "join_users a us =
     map (\<lambda>u. \<lparr>ja_answer = a, ja_user_name = u_name u, ja_group_name = u_group_name u\<rparr>)
       (filter (\<lambda>u. ans_user_id a = Some (u_id u)) us)"

definition answers_of_activity :: "int \<Rightarrow> database \<Rightarrow> joined_answer list" where
  "answers_of_activity activity_id db =
     sort_key answer_order
       (concat (map (\<lambda>a. join_users a (users db))
                  (filter (\<lambda>a. ans_activity_id a = Some activity_id) (answers db))))"

definition get_activity :: "int \<Rightarrow> database \<Rightarrow> outcome" where
  "get_activity activity_id db =
     (case fetchone (filter (\<lambda>a. a_id a = activity_id) (activities db)) of
        None \<Rightarrow> returned db [] (ErrorBody ''Activity not found'' None, 404)
      | Some row \<Rightarrow>
          returned db []
            (ActivityBody row (users_of_activity activity_id db)
               (answers_of_activity activity_id db), 200))"

text \<open>
  \<^verbatim>\<open>GET /api/activities/<int:activity_id>/groups\<close>. The generated name of group \<open>i\<close> is
  \<^verbatim>\<open>f'...{i}...'\<close>: the characters U+7B2C and U+7D44 around the number. The stored value
  is never a \<^verbatim>\<open>str\<close>, so \<^verbatim>\<open>json.loads\<close> is not called.
\<close>

definition group_name :: "int \<Rightarrow> string" where
  "group_name i =
     [CHR 0xE7, CHR 0xAC, CHR 0xAC] @ str_int i @ [CHR 0xE7, CHR 0xB5, CHR 0x84]"


section \<open>app.py: sequences of requests\<close>

text \<open>The requests that write, and the handler of each.\<close>

datatype api_call =
    CreateQuestion question_data
  | UpdateQuestion int question_data
  | DeleteQuestion int
  | CreateActivity activity_data
  | UpdateActivity int activity_update
  | JoinActivity join_data
  | SubmitAnswer answer_data

fun handle :: "api_call \<Rightarrow> database \<Rightarrow> outcome" where
  "handle (CreateQuestion data) db = create_question data db"
| "handle (UpdateQuestion question_id data) db = update_question question_id data db"
| "handle (DeleteQuestion question_id) db = delete_question question_id db"
| "handle (CreateActivity data) db = create_activity data db"
| "handle (UpdateActivity activity_id data) db = update_activity activity_id data db"
| "handle (JoinActivity data) db = join_activity data db"
| "handle (SubmitAnswer data) db = submit_answer data db"

text \<open>The database after a sequence of requests, served one after the other.\<close>

definition run :: "api_call list \<Rightarrow> database \<Rightarrow> database" where
  "run calls db = fold (\<lambda>c db. db_after (handle c db)) calls db"








subsection \<open>Sample requests and databases\<close>

definition no_update :: activity_update where
  "no_update =
     \<lparr>au_status = None, au_current_question_id = None, au_groups_count = None,
      au_groups = None, au_display_mode = None, au_projected_answer = None,
      au_stats_limit = None\<rparr>"

text \<open>\<^verbatim>\<open>{"status": "active", "current_question_id": 1}\<close>\<close>

definition start_question :: activity_update where
  "start_question = no_update\<lparr>au_status := Some (Some ''active''),
                               au_current_question_id := Some (Some 1)\<rparr>"


text \<open>\<^verbatim>\<open>{"name": "quiz"}\<close> and \<^verbatim>\<open>{"name": "quiz", "groups_count": 3}\<close>\<close>

definition quiz :: activity_data where
  "quiz = \<lparr>ad_name = Some ''quiz'', ad_groups_count = None, ad_groups = None\<rparr>"


text \<open>\<^verbatim>\<open>{"type": "text", "content": "why?", "answer_limit": 1}\<close>\<close>

definition why :: question_data where
  "why = \<lparr>qd_type = Some ''text'', qd_content = Some ''why?'', qd_options = None,
          qd_time_limit = None, qd_answer_limit = Some 1\<rparr>"

text \<open>\<^verbatim>\<open>{"activity_id": 1, "name": "ann"}\<close>\<close>

definition ann :: join_data where
  "ann = \<lparr>jd_activity_id = Some 1, jd_name = Some ''ann'', jd_group_name = None\<rparr>"

text \<open>
  \<^verbatim>\<open>{"activity_id": 1, "question_id": 1, "user_id": 1, "answer_text": "so"}\<close>, and the
  same with \<^verbatim>\<open>"user_id": null\<close>.
\<close>

definition ann_answers :: answer_data where
  "ann_answers = \<lparr>sd_activity_id = Some 1, sd_question_id = Some 1, sd_user_id = Some 1,
                  sd_answer_text = Some ''so''\<rparr>"

definition nobody_answers :: answer_data where
  "nobody_answers = ann_answers\<lparr>sd_user_id := None\<rparr>"

text \<open>
  A database with one activity, one user and one question whose \<open>answer_limit\<close> is \<open>0\<close>.
\<close>

definition zero_limit_db :: database where
  "zero_limit_db =
     \<lparr>questions = [\<lparr>q_id = 1, q_type = ''text'', q_content = ''why?'', q_options = Some (JList []),
                     q_time_limit = None, q_answer_limit = Some 0, q_created_at = 0\<rparr>],
      activities = [\<lparr>a_id = 1, a_name = ''quiz'', a_status = Some ''preparing'',
                      a_current_question_id = None, a_groups_count = None, a_groups = None,
                      a_display_mode = Some ''none'', a_started_at = None, a_ended_at = None,
                      a_created_at = 0\<rparr>],
      users = [\<lparr>u_id = 1, u_activity_id = Some 1, u_name = ''ann'', u_group_name = None,
                 u_joined_at = 0\<rparr>],
      answers = [],
      questions_id_seq = 2, activities_id_seq = 2, users_id_seq = 2, answers_id_seq = 1,
      clock = 0\<rparr>"


text \<open>
  The database after an activity, a question that allows one answer and a user have been
  created; the same after the user has answered; and after an answer without a user.
\<close>

definition quiz_db :: database where
  "quiz_db = run [CreateActivity quiz, CreateQuestion why, JoinActivity ann] empty_database"

definition answered_db :: database where
  "answered_db = run [SubmitAnswer ann_answers] quiz_db"

definition nobody_db :: database where
  "nobody_db = run [SubmitAnswer nobody_answers] quiz_db"

text \<open>
  The answers of an activity that have a user, each with the name and the group of its
  user: the pairs of an answer of the activity and the user it refers to.
\<close>

definition answers_with_user :: "int \<Rightarrow> database \<Rightarrow> joined_answer multiset" where
  "answers_with_user activity_id db =
     image_mset
       (\<lambda>(a, u). \<lparr>ja_answer = a, ja_user_name = u_name u, ja_group_name = u_group_name u\<rparr>)
       (filter_mset
          (\<lambda>(a, u). ans_activity_id a = Some activity_id \<and> ans_user_id a = Some (u_id u))
          (mset (List.product (answers db) (users db))))"



section \<open>Properties of the accumulator\<close>

lemma add_result_counters:
  "total_requests self = successful_requests self + failed_requests self \<Longrightarrow>
   total_requests (add_result s t e self) =
     successful_requests (add_result s t e self) + failed_requests (add_result s t e self)"
  by (simp add: add_result_def Let_def split: option.splits)

lemma add_result_times:
  "response_times (add_result s t e self) = response_times self @ [t]"
  by (simp add: add_result_def Let_def split: option.splits)

lemma add_result_total:
  "total_requests (add_result s t e self) = total_requests self + 1"
  by (simp add: add_result_def Let_def split: option.splits)

lemma add_result_messages:
  "error_messages (add_result s t e self) =
     error_messages self @ recorded_messages [(s, t, e)]"
  by (simp add: add_result_def recorded_messages_def Let_def split: option.splits)

lemma recorded_messages_Cons:
  "recorded_messages (c # calls) = recorded_messages [c] @ recorded_messages calls"
  by (simp add: recorded_messages_def)

lemma add_results_invariant:
  "total_requests self = successful_requests self + failed_requests self \<Longrightarrow>
   int (length (response_times self)) = total_requests self \<Longrightarrow>
   total_requests (add_results calls self) =
     successful_requests (add_results calls self) + failed_requests (add_results calls self)
   \<and> int (length (response_times (add_results calls self))) = total_requests (add_results calls self)
   \<and> error_messages (add_results calls self) = error_messages self @ recorded_messages calls"
proof (induction calls arbitrary: self)
  case Nil
  then show ?case by (simp add: add_results_def recorded_messages_def)
next
  case (Cons c calls)
  obtain s t e where c: "c = (s, t, e)" by (cases c) auto
  let ?self = "add_result s t e self"
  have 1: "total_requests ?self = successful_requests ?self + failed_requests ?self"
    using Cons.prems(1) by (rule add_result_counters)
  have 2: "int (length (response_times ?self)) = total_requests ?self"
    using Cons.prems(2) by (simp add: add_result_times add_result_total)
  have step: "add_results (c # calls) self = add_results calls ?self"
    by (simp add: add_results_def c)
  from Cons.IH [OF 1 2] show ?case
    unfolding step recorded_messages_Cons [of c calls]
    by (simp add: add_result_messages c)
qed

text \<open>
  C9 (as amended). After every sequence of \<^verbatim>\<open>add_result\<close> calls on a fresh
  \<^verbatim>\<open>LoadTestResult\<close>, \<open>total_requests = successful_requests + failed_requests\<close> and
  \<open>len(response_times) = total_requests\<close> hold, and \<open>error_messages\<close> holds, in call order,
  exactly one entry for each failed call whose message is neither \<^verbatim>\<open>None\<close> nor the empty
  string. A single failed call with a non-empty message \<open>c # m\<close> appends exactly that
  message.
\<close>

theorem add_result_invariants:
  "total_requests (add_results calls LoadTestResult_init) =
     successful_requests (add_results calls LoadTestResult_init)
       + failed_requests (add_results calls LoadTestResult_init)
   \<and> int (length (response_times (add_results calls LoadTestResult_init))) =
       total_requests (add_results calls LoadTestResult_init)
   \<and> error_messages (add_results calls LoadTestResult_init) = recorded_messages calls
   \<and> error_messages (add_result False t (Some (c # m)) self) = error_messages self @ [c # m]"
proof -
  have "total_requests (LoadTestResult_init :: 'a LoadTestResult) =
      successful_requests (LoadTestResult_init :: 'a LoadTestResult)
        + failed_requests (LoadTestResult_init :: 'a LoadTestResult)"
    and "int (length (response_times (LoadTestResult_init :: 'a LoadTestResult))) =
      total_requests (LoadTestResult_init :: 'a LoadTestResult)"
    by (simp_all add: LoadTestResult_init_def)
  from add_results_invariant [OF this, of calls]
  have "total_requests (add_results calls LoadTestResult_init) =
     successful_requests (add_results calls LoadTestResult_init)
       + failed_requests (add_results calls LoadTestResult_init)
   \<and> int (length (response_times (add_results calls LoadTestResult_init))) =
       total_requests (add_results calls LoadTestResult_init)
   \<and> error_messages (add_results calls (LoadTestResult_init :: 'a LoadTestResult)) = recorded_messages calls"
    by (simp add: LoadTestResult_init_def)
  then show ?thesis by (simp add: add_result_messages recorded_messages_def)
qed

text \<open>
  C9, the claim as stated, fails: a failed call that supplies the non-null message
  \<^verbatim>\<open>""\<close> appends nothing, because \<^verbatim>\<open>if error_msg:\<close> tests truthiness.
\<close>

theorem add_result_empty_message_counterexample:
  "error_messages (add_result False (0::real) (Some []) LoadTestResult_init) = []"
  by (simp add: add_result_def LoadTestResult_init_def Let_def)

section \<open>Properties of one registration request\<close>

lemma str_nat_not_empty: "str_nat n \<noteq> []"
  by (subst str_nat.simps) simp

text \<open>
  C7. \<^verbatim>\<open>send_register_request\<close> reports success exactly when \<^verbatim>\<open>requests.post\<close> returns a
  response whose status code is 201. Every other response and every raised exception
  gives a failure with an error message that is not \<^verbatim>\<open>None\<close> (and not empty). In every
  case the response time, the difference of the two clock readings, is returned, and
  \<^verbatim>\<open>add_result\<close> appends it to \<open>response_times\<close>.
\<close>

theorem send_register_request_classifies:
  "(fst (send_register_request started finished outcome)
      \<longleftrightarrow> (\<exists>r. outcome = Returned r \<and> status_code r = 201))
   \<and> (\<not> fst (send_register_request started finished outcome) \<longrightarrow>
        (\<exists>m. snd (snd (send_register_request started finished outcome)) = Some m \<and> m \<noteq> []))
   \<and> (fst (send_register_request started finished outcome) \<longrightarrow>
        snd (snd (send_register_request started finished outcome)) = None)
   \<and> fst (snd (send_register_request started finished outcome)) = finished - started
   \<and> response_times (record_request started finished outcome result) =
        response_times result @ [finished - started]"
proof (cases outcome)
  case (Returned r)
  then show ?thesis
    by (simp add: send_register_request_def record_request_def add_result_times Let_def)
next
  case (Raised e)
  then show ?thesis
    by (simp add: send_register_request_def record_request_def add_result_times
        msg_timeout_def msg_connection_def msg_other_prefix_def)
qed

theorem send_register_request_classifies_witness:
  "\<not> fst (send_register_request (1::real) 3 (Returned \<lparr>status_code = 500, text_of = ''no''\<rparr>))
   \<and> snd (snd (send_register_request (1::real) 3 (Returned \<lparr>status_code = 500, text_of = ''no''\<rparr>)))
       = Some ''HTTP 500: no''
   \<and> fst (send_register_request (1::real) 3 (Returned \<lparr>status_code = 201, text_of = ''ok''\<rparr>))
   \<and> snd (snd (send_register_request (1::real) 3 (Returned \<lparr>status_code = 201, text_of = ''ok''\<rparr>)))
       = None
   \<and> send_register_request (1::real) 3
        (Raised \<lparr>is_Timeout = True, is_ConnectionError = True, exc_str = []\<rparr>)
       = (False, 2, Some msg_timeout)"
  using send_register_request_classifies
    [of "1::real" 3 "Returned \<lparr>status_code = 500, text_of = ''no''\<rparr>" LoadTestResult_init]
    send_register_request_classifies
    [of "1::real" 3 "Returned \<lparr>status_code = 201, text_of = ''ok''\<rparr>" LoadTestResult_init]
  by (simp add: send_register_request_def str_int_def continuation_byte_def)

section \<open>Properties of the statistics\<close>

subsection \<open>Rounding to 53 bits\<close>

declare bit_length.simps [simp del]

lemma bit_length_lower: "0 < n \<Longrightarrow> 2 ^ (bit_length n - 1) \<le> n"
proof (induction n rule: bit_length.induct)
  case (1 n)
  show ?case
  proof (cases "n div 2 = 0")
    case True
    with 1(2) have "n = 1" by (simp add: div_eq_0_iff) 
    then show ?thesis by (simp add: bit_length.simps [of "Suc 0"] bit_length.simps [of 0])
  next
    case False
    then have pos: "0 < n div 2" by simp
    from 1(2) have n0: "n \<noteq> 0" by simp
    have ih: "2 ^ (bit_length (n div 2) - 1) \<le> n div 2" using 1(1) [OF n0 pos] .
    have bl: "bit_length n = Suc (bit_length (n div 2))"
      using n0 by (simp add: bit_length.simps [of n])
    have "0 < bit_length (n div 2)" using pos by (simp add: bit_length.simps [of "n div 2"])
    then have "2 ^ (bit_length n - 1) = 2 * 2 ^ (bit_length (n div 2) - 1)"
      unfolding bl by (cases "bit_length (n div 2)") simp_all
    also have "\<dots> \<le> 2 * (n div 2)" using ih by simp
    also have "\<dots> \<le> n" by simp
    finally show ?thesis .
  qed
qed

lemma bit_length_upper: "n < 2 ^ bit_length n"
proof (induction n rule: bit_length.induct)
  case (1 n)
  show ?case
  proof (cases "n = 0")
    case True
    then show ?thesis by simp
  next
    case False
    have ih: "n div 2 < 2 ^ bit_length (n div 2)" using 1 [OF False] .
    have bl: "bit_length n = Suc (bit_length (n div 2))"
      using False by (simp add: bit_length.simps [of n])
    have "n < 2 * (n div 2) + 2" by presburger
    also have "\<dots> \<le> 2 * 2 ^ bit_length (n div 2)" using ih by simp
    finally show ?thesis unfolding bl by simp
  qed
qed

lemma round53_small: "bit_length x \<le> 53 \<Longrightarrow> round53 x = x"
  by (simp add: round53_def)

lemma round53_cases:
  assumes "53 < bit_length x"
  defines "s \<equiv> bit_length x - 53"
  shows "round53 x = (x div 2 ^ s) * 2 ^ s \<and> x mod 2 ^ s \<le> 2 ^ (s - 1)
       \<or> round53 x = (x div 2 ^ s + 1) * 2 ^ s \<and> 2 ^ (s - 1) \<le> x mod 2 ^ s"
  using assms by (auto simp: round53_def Let_def)

lemma round53_error:
  assumes "53 < bit_length x"
  defines "s \<equiv> bit_length x - 53"
  shows "round53 x \<le> x + 2 ^ (s - 1)" and "x \<le> round53 x + 2 ^ (s - 1)" and "2 ^ s dvd round53 x"
proof -
  have s: "0 < s" using assms by simp
  have half: "(2::nat) ^ s = 2 ^ (s - 1) + 2 ^ (s - 1)"
    using s by (cases s) simp_all
  have x: "x = (x div 2 ^ s) * 2 ^ s + x mod 2 ^ s" by (rule div_mult_mod_eq [symmetric])
  have r: "x mod 2 ^ s < 2 ^ s" by simp
  from round53_cases [OF assms(1)]
  consider (down) "round53 x = (x div 2 ^ s) * 2 ^ s" "x mod 2 ^ s \<le> 2 ^ (s - 1)"
    | (up) "round53 x = (x div 2 ^ s + 1) * 2 ^ s" "2 ^ (s - 1) \<le> x mod 2 ^ s"
    unfolding s_def by blast
  then have "round53 x \<le> x + 2 ^ (s - 1) \<and> x \<le> round53 x + 2 ^ (s - 1) \<and> 2 ^ s dvd round53 x"
  proof cases
    case down
    have le: "(x div 2 ^ s) * 2 ^ s \<le> x" by simp
    have "round53 x \<le> x + 2 ^ (s - 1)" unfolding down(1) using le by linarith
    moreover have "x \<le> round53 x + 2 ^ (s - 1)" unfolding down(1) using down(2) x by linarith
    ultimately show ?thesis using down(1) by simp
  next
    case up
    have "round53 x = (x div 2 ^ s) * 2 ^ s + 2 ^ s" using up(1) by (simp add: algebra_simps)
    then have "round53 x \<le> x + 2 ^ (s - 1)" "x \<le> round53 x" using up(2) x half r by linarith+
    then show ?thesis using up(1) by simp
  qed
  then show "round53 x \<le> x + 2 ^ (s - 1)" and "x \<le> round53 x + 2 ^ (s - 1)" and "2 ^ s dvd round53 x"
    by simp_all
qed

lemma round53_scale:
  assumes "53 < bit_length x"
  shows "2 ^ (bit_length x - 53 - 1) * 2 ^ 53 \<le> x"
proof -
  have "x \<noteq> 0"
  proof
    assume "x = 0"
    then have "bit_length x = 0" by (simp add: bit_length.simps [of 0])
    with assms show False by simp
  qed
  then have "0 < x" by simp
  then have "2 ^ (bit_length x - 1) \<le> x" by (rule bit_length_lower)
  moreover have "(2::nat) ^ (bit_length x - 53 - 1) * 2 ^ 53 = 2 ^ (bit_length x - 53 - 1 + 53)"
    by (simp only: power_add)
  moreover have "bit_length x - 53 - 1 + 53 = bit_length x - 1" using assms by arith
  ultimately show ?thesis by (simp only:)
qed

lemma round53_upper: "round53 x * 2 ^ 53 \<le> x * (2 ^ 53 + 1)"
proof (cases "bit_length x \<le> 53")
  case True
  then show ?thesis by (simp add: round53_small)
next
  case False
  then have big: "53 < bit_length x" by simp
  have "round53 x * 2 ^ 53 \<le> (x + 2 ^ (bit_length x - 53 - 1)) * 2 ^ 53"
    using round53_error(1) [OF big] by simp
  also have "\<dots> = x * 2 ^ 53 + 2 ^ (bit_length x - 53 - 1) * 2 ^ 53"
    by (simp add: algebra_simps)
  also have "\<dots> \<le> x * 2 ^ 53 + x" using round53_scale [OF big] by simp
  finally show ?thesis by (simp add: algebra_simps)
qed

lemma int_of_product_less:
  assumes "0 < n" and "m * (2 ^ 53 + 1) * (2 ^ 53 + 1) < 2 ^ 53 * 2 ^ 53 * 2 ^ 53"
  shows "int_of_product n m < n"
proof -
  define B :: nat where "B = 2 ^ 53"
  define C :: nat where "C = 2 ^ 53 + 1"
  define N where "N = round53 n"
  define R where "R = round53 (N * m)"
  have B: "0 < B" by (simp add: B_def)
  have 1: "N * B \<le> n * C" unfolding N_def B_def C_def by (rule round53_upper)
  have 2: "R * B \<le> N * m * C" unfolding R_def B_def C_def by (rule round53_upper)
  have 3: "m * C * C < B * B * B" using assms(2) unfolding B_def C_def .
  have "R * B * B \<le> N * m * C * B" using 2 by (rule mult_le_mono1)
  also have "\<dots> = (N * B) * (m * C)" by (simp only: mult_ac)
  also have "\<dots> \<le> (n * C) * (m * C)" using 1 by (rule mult_le_mono1)
  also have "\<dots> = n * (m * C * C)" by (simp only: mult_ac)
  also have "\<dots> < n * (B * B * B)" using 3 assms(1) by (simp only: mult_less_cancel1)
  finally have "R * (B * B) < (n * B) * (B * B)" by (simp only: mult_ac)
  then have "R < n * B" by (simp only: mult_less_cancel2)
  then have "R div B < n" using B by (simp add: less_mult_imp_div_less)
  then show ?thesis unfolding int_of_product_def R_def N_def B_def .
qed

lemma p95_index_less: "0 < n \<Longrightarrow> p95_index n < n"
  unfolding p95_index_def by (rule int_of_product_less) (simp_all add: double_095_def)

lemma p99_index_less: "0 < n \<Longrightarrow> p99_index n < n"
  unfolding p99_index_def by (rule int_of_product_less) (simp_all add: double_099_def)

lemma bit_length_le:
  assumes "x < 2 ^ k" shows "bit_length x \<le> k"
proof (cases "x = 0")
  case True
  then show ?thesis by (simp add: bit_length.simps [of 0])
next
  case False
  then have "0 < x" by simp
  then have "2 ^ (bit_length x - 1) \<le> x" by (rule bit_length_lower)
  from this assms have "(2::nat) ^ (bit_length x - 1) < 2 ^ k" by (rule le_less_trans)
  then have "bit_length x - 1 < k" by (simp only: power_strict_increasing_iff)
  then show ?thesis by arith
qed

lemma bit_length_gt:
  assumes "2 ^ k \<le> x" shows "k < bit_length x"
proof -
  have "(2::nat) ^ k < 2 ^ bit_length x" using assms bit_length_upper [of x] by (rule le_less_trans)
  then show ?thesis by simp
qed

lemma round53_near:
  assumes P: "P < 2 ^ 100"
    and lo: "K * 2 ^ 53 + 2 ^ 46 \<le> P"
    and hi: "P + 2 ^ 46 < (K + 1) * 2 ^ 53"
  shows "round53 P div 2 ^ 53 = K"
proof -
  have "K * 2 ^ 53 \<le> round53 P \<and> round53 P < (K + 1) * 2 ^ 53"
  proof (cases "bit_length P \<le> 53")
    case True
    then have "round53 P = P" by (rule round53_small)
    then show ?thesis using lo hi by simp
  next
    case False
    then have big: "53 < bit_length P" by simp
    have "bit_length P \<le> 100" using P by (rule bit_length_le)
    then have "bit_length P - 53 - 1 \<le> 46" by simp
    then have e: "(2::nat) ^ (bit_length P - 53 - 1) \<le> 2 ^ 46"
      by (rule power_increasing) simp
    from round53_error(1,2) [OF big] e lo hi show ?thesis by linarith
  qed
  then show ?thesis
    by (intro div_nat_eqI) (simp_all add: mult.commute)
qed

lemma round53_just_below:
  assumes P1: "2 ^ 53 \<le> P" and P2: "P < 2 ^ 106"
    and d: "P + d = K * 2 ^ 53" and small: "d * 2 ^ 54 \<le> P"
  shows "round53 P = K * 2 ^ 53"
proof -
  define s where "s = bit_length P - 53"
  have big: "53 < bit_length P" using P1 by (rule bit_length_gt)
  have s1: "0 < s" using big by (simp add: s_def)
  have "bit_length P \<le> 106" using P2 by (rule bit_length_le)
  then have s53: "s \<le> 53" by (simp add: s_def)
  define h :: nat where "h = 2 ^ (s - 1)"
  have two: "(2::nat) ^ s = h + h" using s1 unfolding h_def by (cases s) simp_all
  have "bit_length P = (s - 1) + 54" using big by (simp add: s_def)
  then have "P < 2 ^ ((s - 1) + 54)" using bit_length_upper [of P] by simp
  then have "P < h * 2 ^ 54" by (simp only: power_add h_def)
  with small have "d * 2 ^ 54 < h * 2 ^ 54" by (rule le_less_trans)
  then have dh: "d < h" by simp
  from round53_error [OF big]
  have up: "round53 P \<le> P + h" and down: "P \<le> round53 P + h" and dv: "2 ^ s dvd round53 P"
    by (simp_all add: s_def h_def)
  from dv obtain a where a: "round53 P = 2 ^ s * a" by (elim dvdE)
  have "(2::nat) ^ 53 = 2 ^ s * 2 ^ (53 - s)" using s53 by (simp flip: power_add)
  then have "K * 2 ^ 53 = 2 ^ s * (K * 2 ^ (53 - s))" by simp
  then obtain b where b: "K * 2 ^ 53 = 2 ^ s * b" by blast
  have "2 ^ s * a < 2 ^ s * b + 2 ^ s" using up d dh s1 two unfolding a [symmetric] b [symmetric]
    by linarith
  then have "2 ^ s * a < 2 ^ s * (b + 1)" by simp
  then have 1: "a < b + 1" by (simp only: mult_less_cancel1)
  have "2 ^ s * b < 2 ^ s * a + 2 ^ s" using down d dh two unfolding a [symmetric] b [symmetric]
    by linarith
  then have "2 ^ s * b < 2 ^ s * (a + 1)" by simp
  then have 2: "b < a + 1" by (simp only: mult_less_cancel1)
  from 1 2 have "a = b" by simp
  then show ?thesis using a b by simp
qed

lemma int_of_product_floor:
  assumes m: "b * m + 8 = a * 2 ^ 53"
    and a: "17 \<le> a" "a < b" and b: "b \<le> 100" "b \<le> 2 * a"
    and n: "n < 2 ^ 47"
  shows "int_of_product n m = (a * n) div b"
proof -
  define B :: nat where "B = 2 ^ 53"
  define k where "k = (a * n) div b"
  define r where "r = (a * n) mod b"
  define P where "P = n * m"
  have B: "B = 9007199254740992" by (simp add: B_def)
  have b0: "0 < b" using a by simp
  have an: "a * n = b * k + r" by (simp add: k_def r_def)
  have rb: "r < b" using b0 by (simp add: r_def)
  have mB: "b * m + 8 = a * B" using m by (simp add: B_def)
  have "bit_length n \<le> 53"
  proof -
    have "n < 2 ^ 53" using n by simp
    then show ?thesis by (rule bit_length_le)
  qed
  then have rn: "round53 n = n" by (rule round53_small)
  have "b * P + 8 * n = n * (b * m + 8)" by (simp add: P_def algebra_simps)
  also have "\<dots> = (a * n) * B" using mB by (simp add: mult_ac)
  also have "\<dots> = b * (k * B) + r * B" unfolding an by (simp add: algebra_simps)
  finally have key: "b * P + 8 * n = b * (k * B) + r * B" .
  have mlt: "m < B"
  proof -
    have "a * B \<le> b * B" using a(2) by simp
    then have "b * m < b * B" using mB by linarith
    then show ?thesis by simp
  qed
  have mge: "2 ^ 52 \<le> m"
  proof (rule ccontr)
    assume "\<not> 2 ^ 52 \<le> m"
    then have "m + 1 \<le> 4503599627370496" by simp
    then have "b * (m + 1) \<le> b * 4503599627370496" by (rule mult_le_mono2)
    also have "\<dots> \<le> (2 * a) * 4503599627370496" using b(2) by (rule mult_le_mono1)
    also have "\<dots> = a * B" by (simp add: B)
    finally have "b * m + b \<le> a * B" by simp
    moreover have "8 < b" using a by simp
    ultimately show False using mB by simp
  qed
  have Plt: "P < 2 ^ 100"
  proof -
    have "n * m < 2 ^ 47 * 2 ^ 53" using n mlt unfolding B_def by (rule mult_strict_mono) simp_all
    then show ?thesis by (simp add: P_def)
  qed
  have "round53 P div 2 ^ 53 = k"
  proof (cases "r = 0")
    case True
    have bd: "b * P + 8 * n = b * (k * B)" using key True by simp
    then have "b dvd 8 * n" by (metis dvd_add_right_iff dvd_triv_left)
    then obtain d where d: "8 * n = b * d" by (elim dvdE)
    have "b * (P + d) = b * (k * B)" using bd d by (simp add: algebra_simps)
    then have Pd: "P + d = k * B" using b0 by simp
    show ?thesis
    proof (cases "n = 0")
      case True
      then have "P = 0" "k = 0" by (simp_all add: P_def k_def)
      then show ?thesis by (simp add: round53_small bit_length.simps [of 0])
    next
      case n0: False
    have n1: "n \<noteq> 1"
    proof
      assume "n = 1"
      then have "a mod b = 0" using True by (simp add: r_def)
      then show False using a by simp
    qed
    have "2 \<le> n" using n0 n1 by simp
    then have "2 * 2 ^ 52 \<le> n * m" using mge by (rule mult_le_mono)
    then have P1: "2 ^ 53 \<le> P" by (simp add: P_def)
    have P2: "P < 2 ^ 106" using Plt by simp
    have "b * (d * 2 ^ 54) = n * (8 * 2 ^ 54)" using d by (simp add: mult_ac)
    also have "\<dots> \<le> n * (b * m)"
    proof (rule mult_le_mono2)
      have "(8::nat) * 2 ^ 54 + 8 \<le> 17 * B" by (simp add: B)
      also have "\<dots> \<le> a * B" using a(1) by simp
      finally show "8 * 2 ^ 54 \<le> b * m" using mB by simp
    qed
    also have "\<dots> = b * P" by (simp add: P_def mult_ac)
    finally have small: "d * 2 ^ 54 \<le> P" using b0 by simp
    from round53_just_below [OF P1 P2 _ small, of k] Pd
    have "round53 P = k * 2 ^ 53" by (simp add: B_def)
    then show ?thesis by simp
    qed
  next
    case False
    then have r1: "1 \<le> r" by simp
    have n8: "8 * n < 2 ^ 50" using n by simp
    have lo: "k * 2 ^ 53 + 2 ^ 46 \<le> P"
    proof -
      have "b * (k * B) + b * 2 ^ 46 + 8 * n \<le> b * (k * B) + 100 * 2 ^ 46 + 2 ^ 50"
        using b(1) n8 by (simp add: add_mono)
      also have "\<dots> \<le> b * (k * B) + 1 * B" by (simp add: B)
      also have "\<dots> \<le> b * (k * B) + r * B" using r1 by (simp only: add_le_cancel_left mult_le_mono1)
      also have "\<dots> = b * P + 8 * n" using key by simp
      finally have "b * (k * B + 2 ^ 46) \<le> b * P" by (simp add: algebra_simps)
      then show ?thesis using b0 by (simp add: B_def)
    qed
    have hi: "P + 2 ^ 46 < (k + 1) * 2 ^ 53"
    proof -
      have "r + 1 \<le> b" using rb by simp
      then have rB: "r * B + B \<le> b * B" by (metis add_mult_distrib mult_le_mono1 nat_mult_1)
      have "b * P + b * 2 ^ 46 \<le> b * P + 100 * 2 ^ 46" using b(1) by simp
      also have "\<dots> < b * P + B" by (simp add: B)
      also have "\<dots> \<le> b * P + 8 * n + B" by simp
      also have "\<dots> = b * (k * B) + (r * B + B)" using key by simp
      also have "\<dots> \<le> b * (k * B) + b * B" using rB by simp
      finally have "b * (P + 2 ^ 46) < b * ((k + 1) * B)" by (simp add: algebra_simps)
      then show ?thesis by (simp add: B_def)
    qed
    from Plt lo hi show ?thesis by (rule round53_near)
  qed
  then show ?thesis by (simp add: int_of_product_def rn P_def k_def)
qed

lemma p95_index_floor: "n < 2 ^ 47 \<Longrightarrow> p95_index n = (19 * n) div 20"
  unfolding p95_index_def by (rule int_of_product_floor) (simp_all add: double_095_def)

lemma p99_index_floor: "n < 2 ^ 47 \<Longrightarrow> p99_index n = (99 * n) div 100"
  unfolding p99_index_def by (rule int_of_product_floor) (simp_all add: double_099_def)

subsection \<open>The dictionaries\<close>

lemma py_min_Min: "xs \<noteq> [] \<Longrightarrow> py_min xs = Inr (Min (set xs))"
proof (cases xs)
  case (Cons x ys)
  then show ?thesis using Min.set_eq_fold [of x ys] by (simp add: py_min_def)
qed simp

lemma py_max_Max: "xs \<noteq> [] \<Longrightarrow> py_max xs = Inr (Max (set xs))"
proof (cases xs)
  case (Cons x ys)
  then show ?thesis using Max.set_eq_fold [of x ys] by (simp add: py_max_def)
qed simp

lemma int_div_int_positive:
  "0 < b \<Longrightarrow> int_div_int ar a b = Inr (int_truediv ar a b)"
  by (simp add: int_div_int_def)

lemma int_div_float_positive:
  "0 < (y :: 'a::{linorder,zero}) \<Longrightarrow>
     int_div_float ar a y = Inr (float_div ar (int_to_float ar a) y)"
  by (auto simp add: int_div_float_def)

lemma float_div_int_length:
  "xs \<noteq> [] \<Longrightarrow>
     float_div_int ar x (int (length xs)) = Inr (float_div ar x (int_to_float ar (int (length xs))))"
  by (simp add: float_div_int_def)

lemma py_index_sorted:
  "i < length xs \<Longrightarrow> py_index (sort xs) i = Inr (sort xs ! i)"
  by (simp add: py_index_def)

lemma median_index_less: "0 < n \<Longrightarrow> median_index n < n"
  by (simp add: median_index_def)

lemma time_stats_value:
  assumes "xs \<noteq> []"
  shows "time_stats ar xs =
    Inr \<lparr>ts_avg = float_div ar (float_sum ar xs) (int_to_float ar (int (length xs))),
         ts_min = Min (set xs), ts_max = Max (set xs),
         ts_median = sort xs ! median_index (length xs),
         ts_p95 = sort xs ! p95_index (length xs),
         ts_p99 = sort xs ! p99_index (length xs)\<rparr>"
proof -
  have n: "0 < length xs" using assms by simp
  show ?thesis
    unfolding time_stats_def Let_def
    by (simp add: assms bind_res_def py_min_Min [OF assms] py_max_Max [OF assms]
        float_div_int_length [OF assms] py_index_sorted median_index_less [OF n]
        p95_index_less [OF n] p99_index_less [OF n] n)
qed

lemma event_stats_total: "\<exists>sts. event_stats ar evs = Inr sts"
proof (induction evs)
  case Nil
  then show ?case by simp
next
  case (Cons ev evs)
  obtain name xs where ev: "ev = (name, xs)" by (cases ev)
  from Cons obtain sts where "event_stats ar evs = Inr sts" by blast
  then show ?case
    by (cases "xs = []") (simp_all add: ev bind_res_def time_stats_value)
qed

lemma socket_get_statistics_total: "\<exists>st. socket_get_statistics ar self = Inr st"
proof -
  obtain sts where sts: "event_stats ar (event_response_times self) = Inr sts"
    using event_stats_total by blast
  show ?thesis
    unfolding socket_get_statistics_def Let_def
    by (cases "connection_times self = []")
      (simp_all add: bind_res_def sts int_div_int_positive time_stats_value)
qed

lemma get_statistics_value:
  assumes "response_times self \<noteq> []"
  shows "get_statistics ar self =
    Inr (Some \<lparr>stat_total_requests = total_requests self,
               stat_successful_requests = successful_requests self,
               stat_failed_requests = failed_requests self,
               success_rate =
                 (if 0 < total_requests self
                  then float_mul ar
                         (int_truediv ar (successful_requests self) (total_requests self))
                         (int_to_float ar 100)
                  else 0),
               total_time = elapsed ar (end_time self) (start_time self),
               requests_per_second =
                 (if 0 < elapsed ar (end_time self) (start_time self)
                  then float_div ar (int_to_float ar (total_requests self))
                         (elapsed ar (end_time self) (start_time self))
                  else 0),
               avg_response_time =
                 float_div ar (float_sum ar (response_times self))
                   (int_to_float ar (int (length (response_times self)))),
               min_response_time = Min (set (response_times self)),
               max_response_time = Max (set (response_times self)),
               median_response_time =
                 sort (response_times self) ! median_index (length (response_times self)),
               p95_response_time =
                 sort (response_times self) ! p95_index (length (response_times self)),
               p99_response_time =
                 sort (response_times self) ! p99_index (length (response_times self))\<rparr>)"
proof -
  have n: "0 < length (response_times self)" using assms by simp
  show ?thesis
    unfolding get_statistics_def Let_def
    by (simp add: assms bind_res_def py_min_Min [OF assms] py_max_Max [OF assms]
        float_div_int_length [OF assms] int_div_int_positive int_div_float_positive
        py_index_sorted median_index_less [OF n] p95_index_less [OF n]
        p99_index_less [OF n] n)
qed

lemma get_statistics_empty:
  "response_times self = [] \<Longrightarrow> get_statistics ar self = Inr None"
  by (simp add: get_statistics_def)

lemma floor_fraction: "nat \<lfloor>real n * (real a / real b)\<rfloor> = (a * n) div b"
proof -
  have "real n * (real a / real b) = real (a * n) / real b" by simp
  then have "nat \<lfloor>real n * (real a / real b)\<rfloor> = nat \<lfloor>real (a * n) / real b\<rfloor>"
    by (simp only:)
  also have "\<dots> = (a * n) div b" by (simp only: floor_divide_of_nat_eq nat_int)
  finally show ?thesis .
qed

lemma floor_095: "nat \<lfloor>real n * 0.95\<rfloor> = (19 * n) div 20"
proof -
  have "(0.95 :: real) = real 19 / real 20" by simp
  then show ?thesis using floor_fraction [of n 19 20] by (simp only:)
qed

lemma floor_099: "nat \<lfloor>real n * 0.99\<rfloor> = (99 * n) div 100"
proof -
  have "(0.99 :: real) = real 99 / real 100" by simp
  then show ?thesis using floor_fraction [of n 99 100] by (simp only:)
qed

subsection \<open>Evaluating double precision\<close>

lemma floor_rat_fraction: "\<lfloor>numeral a / numeral b :: rat\<rfloor> = numeral a div numeral b"
  using floor_divide_of_int_eq [of "numeral a" "numeral b", where ?'a = rat] by simp

lemma floor_rat_unit_fraction: "\<lfloor>1 / numeral b :: rat\<rfloor> = 1 div numeral b"
  using floor_divide_of_int_eq [of 1 "numeral b", where ?'a = rat] by simp

lemma ceiling_rat_fraction:
  "\<lceil>numeral a / numeral b :: rat\<rceil> = - (- numeral a div numeral b)"
  using floor_divide_of_int_eq [of "- numeral a" "numeral b", where ?'a = rat]
  by (simp add: ceiling_def)

lemma ceiling_rat_unit_fraction: "\<lceil>1 / numeral b :: rat\<rceil> = - (- 1 div numeral b)"
  using floor_divide_of_int_eq [of "- 1" "numeral b", where ?'a = rat]
  by (simp add: ceiling_def)

lemmas round_double_simps =
  round_double_def round_positive_def round53_def bit_length.simps Let_def
  floor_rat_fraction floor_rat_unit_fraction ceiling_rat_fraction ceiling_rat_unit_fraction

lemmas double_arithmetic_simps =
  double_arithmetic_def int_div_int_def int_div_float_def float_div_int_def elapsed_def

lemma round_double_small:
  "round_double 1 = 1" "round_double 2 = 2" "round_double 3 = 3" "round_double 4 = 4"
  "round_double 8 = 8" "round_double 100 = 100"
  by (simp_all add: round_double_simps)

lemma round_double_fractions:
  "round_double (1 / 2) = 1 / 2" "round_double (1 / 4) = 1 / 4" "round_double (1 / 8) = 1 / 8"
  "round_double (3 / 2) = 3 / 2" "round_double (3 / 4) = 3 / 4" "round_double (3 / 8) = 3 / 8"
  "round_double (7 / 2) = 7 / 2" "round_double (11 / 2) = 11 / 2"
  "round_double 6 = 6" "round_double 75 = 75" "round_double 50 = 50"
  by (simp_all add: round_double_simps)

lemma small_indices:
  "median_index 2 = 1" "p95_index 2 = 1" "p99_index 2 = 1"
  "median_index 3 = 1" "p95_index 3 = 2" "p99_index 3 = 2"
  "median_index 4 = 2" "p95_index 4 = 3" "p99_index 4 = 3"
  "median_index 1 = 0" "p95_index 1 = 0" "p99_index 1 = 0"
  "median_index 20 = 10" "p95_index 20 = 19" "p99_index 20 = 19"
  by (simp_all add: median_index_def p95_index_def p99_index_def int_of_product_def
      round53_def double_095_def double_099_def bit_length.simps Let_def)

lemma sample_result_statistics:
  "get_statistics double_arithmetic sample_result =
     Inr (Some \<lparr>stat_total_requests = 4, stat_successful_requests = 3,
                stat_failed_requests = 1, success_rate = 75, total_time = 8,
                requests_per_second = 1 / 2, avg_response_time = 3 / 2,
                min_response_time = 1 / 2, max_response_time = 3,
                median_response_time = 2, p95_response_time = 3,
                p99_response_time = 3\<rparr>)"
proof -
  have four: "Suc (Suc (Suc (Suc 0))) = 4" by simp
  show ?thesis
    by (simp add: get_statistics_def sample_result_def bind_res_def double_arithmetic_simps
        py_min_def py_max_def py_index_def four small_indices round_double_small
        round_double_fractions Let_def)
qed

lemma tenths_rounding:
  "round_double (2 / 3) = 6004799503160661 / 9007199254740992"
  "round_double (150119987579016525 / 2251799813685248) = 2345624805922133 / 35184372088832"
  "round_double (3602879701896397 / 36028797018963968)
     = 3602879701896397 / 36028797018963968"
  "round_double (3602879701896397 / 18014398509481984)
     = 3602879701896397 / 18014398509481984"
  "round_double (10808639105689191 / 36028797018963968)
     = 2702159776422298 / 9007199254740992"
  "round_double (1351079888211149 / 13510798882111488)
     = 7205759403792795 / 72057594037927936"
  by (simp_all add: round_double_simps)

lemma tenths_result_statistics:
  "get_statistics double_arithmetic tenths_result =
     Inr (Some \<lparr>stat_total_requests = 3, stat_successful_requests = 2,
                stat_failed_requests = 1,
                success_rate = 2345624805922133 / 35184372088832, total_time = 0,
                requests_per_second = 0,
                avg_response_time = 7205759403792795 / 72057594037927936,
                min_response_time = 3602879701896397 / 36028797018963968,
                max_response_time = 3602879701896397 / 36028797018963968,
                median_response_time = 3602879701896397 / 36028797018963968,
                p95_response_time = 3602879701896397 / 36028797018963968,
                p99_response_time = 3602879701896397 / 36028797018963968\<rparr>)"
proof -
  have three: "Suc (Suc (Suc 0)) = 3" by simp
  show ?thesis
    by (simp add: get_statistics_def tenths_result_def bind_res_def double_arithmetic_simps
        py_min_def py_max_def py_index_def three small_indices round_double_small
        tenths_rounding Let_def)
qed

subsection \<open>The claims about the statistics\<close>

text \<open>
  C8. For a list of \<open>n > 0\<close> times the three indices that \<^verbatim>\<open>get_statistics\<close> reads,
  \<^verbatim>\<open>n // 2\<close>, \<^verbatim>\<open>int(n * 0.95)\<close> and \<^verbatim>\<open>int(n * 0.99)\<close>, are below \<open>n\<close>; so
  \<^verbatim>\<open>LoadTestResult.get_statistics\<close> returns its dictionary for every non-empty list of
  times, and \<^verbatim>\<open>SocketTestResult.get_statistics\<close> returns its dictionary always: no
  \<^verbatim>\<open>IndexError\<close> and no other exception. On the empty list
  \<^verbatim>\<open>LoadTestResult.get_statistics\<close> returns \<^verbatim>\<open>{}\<close> before any division, whatever the
  counters hold. This holds whatever the float operations compute.
\<close>

theorem statistics_indices_in_bounds:
  "(0 < n \<longrightarrow> median_index n < n \<and> p95_index n < n \<and> p99_index n < n)
   \<and> (response_times self = [] \<longrightarrow> get_statistics ar self = Inr None)
   \<and> (response_times self \<noteq> [] \<longrightarrow> (\<exists>st. get_statistics ar self = Inr (Some st)))
   \<and> (\<exists>st. socket_get_statistics ar sock = Inr st)"
  by (simp add: median_index_less p95_index_less p99_index_less get_statistics_empty
      get_statistics_value socket_get_statistics_total)

theorem statistics_indices_in_bounds_witness:
  "(0::nat) < 20 \<and> median_index 20 = 10 \<and> p95_index 20 = 19 \<and> p99_index 20 = 19
   \<and> response_times (LoadTestResult_init :: rat LoadTestResult) = []
   \<and> get_statistics double_arithmetic (LoadTestResult_init :: rat LoadTestResult) = Inr None
   \<and> response_times sample_result \<noteq> []
   \<and> (\<exists>st. get_statistics double_arithmetic sample_result = Inr (Some st))
   \<and> (\<exists>st. socket_get_statistics double_arithmetic sample_socket_result = Inr st)"
proof -
  have e: "response_times (LoadTestResult_init :: rat LoadTestResult) = []"
    by (simp add: LoadTestResult_init_def)
  have ne: "response_times sample_result \<noteq> []" by (simp add: sample_result_def)
  from statistics_indices_in_bounds
    [of 20 "LoadTestResult_init :: rat LoadTestResult" double_arithmetic sample_socket_result] e
  have 1: "get_statistics double_arithmetic (LoadTestResult_init :: rat LoadTestResult)
      = Inr None"
    and 2: "\<exists>st. socket_get_statistics double_arithmetic sample_socket_result = Inr st"
    by simp_all
  from statistics_indices_in_bounds
    [of 20 sample_result double_arithmetic sample_socket_result] ne
  have 3: "\<exists>st. get_statistics double_arithmetic sample_result = Inr (Some st)" by simp
  from small_indices e ne 1 2 3 show ?thesis by simp
qed

text \<open>
  C5. For a non-empty list of \<open>n\<close> response times \<^verbatim>\<open>get_statistics\<close> returns a dictionary
  whose entries are computed with float operations, each of which rounds:
  \<open>success_rate\<close> is the quotient \<open>successful_requests / total_requests\<close> of the two
  integers, then multiplied by \<open>100\<close> (for a result whose \<open>total_requests\<close> is the number
  of its times, which \<^verbatim>\<open>add_result\<close> keeps so); \<open>avg_response_time\<close> is the float sum of
  the times, added from the left, divided by \<open>n\<close>. \<open>min_response_time\<close> and
  \<open>max_response_time\<close> are the least and the greatest time, \<open>median_response_time\<close> is the
  sorted list's element at \<open>n div 2\<close>, and \<open>p95_response_time\<close> and \<open>p99_response_time\<close>
  are its elements at \<^verbatim>\<open>int(n * 0.95)\<close> and \<^verbatim>\<open>int(n * 0.99)\<close>. These two indices,
  computed in double precision, are the exact \<open>\<lfloor>n * 0.95\<rfloor>\<close> and \<open>\<lfloor>n * 0.99\<rfloor>\<close> for every
  list of fewer than \<open>2 ^ 47\<close> times.
\<close>

theorem get_statistics_float_formulas:
  assumes "response_times self \<noteq> []"
  shows "\<exists>st. get_statistics ar self = Inr (Some st)
    \<and> (total_requests self = int (length (response_times self)) \<longrightarrow>
         success_rate st
           = float_mul ar (int_truediv ar (successful_requests self) (total_requests self))
               (int_to_float ar 100))
    \<and> avg_response_time st
         = float_div ar (float_sum ar (response_times self))
             (int_to_float ar (int (length (response_times self))))
    \<and> min_response_time st = Min (set (response_times self))
    \<and> max_response_time st = Max (set (response_times self))
    \<and> median_response_time st
         = sort (response_times self) ! (length (response_times self) div 2)
    \<and> p95_response_time st
         = sort (response_times self) ! p95_index (length (response_times self))
    \<and> p99_response_time st
         = sort (response_times self) ! p99_index (length (response_times self))
    \<and> (length (response_times self) < 2 ^ 47 \<longrightarrow>
         p95_index (length (response_times self))
           = nat \<lfloor>real (length (response_times self)) * 0.95\<rfloor>
         \<and> p99_index (length (response_times self))
           = nat \<lfloor>real (length (response_times self)) * 0.99\<rfloor>)"
proof -
  have "length (response_times self) < 2 ^ 47 \<longrightarrow>
         p95_index (length (response_times self))
           = nat \<lfloor>real (length (response_times self)) * 0.95\<rfloor>
         \<and> p99_index (length (response_times self))
           = nat \<lfloor>real (length (response_times self)) * 0.99\<rfloor>"
    using p95_index_floor [of "length (response_times self)"]
      p99_index_floor [of "length (response_times self)"]
    by (simp only: floor_095 floor_099) simp
  moreover have "total_requests self = int (length (response_times self)) \<longrightarrow>
      0 < total_requests self"
    using assms by simp
  ultimately show ?thesis
    by (simp only: get_statistics_value [OF assms] median_index_def) auto
qed

theorem get_statistics_float_formulas_witness:
  "response_times sample_result \<noteq> []
   \<and> get_statistics double_arithmetic sample_result =
       Inr (Some \<lparr>stat_total_requests = 4, stat_successful_requests = 3,
                  stat_failed_requests = 1, success_rate = 75, total_time = 8,
                  requests_per_second = 1 / 2, avg_response_time = 3 / 2,
                  min_response_time = 1 / 2, max_response_time = 3,
                  median_response_time = 2, p95_response_time = 3,
                  p99_response_time = 3\<rparr>)
   \<and> total_requests sample_result = int (length (response_times sample_result))
   \<and> float_mul double_arithmetic
       (int_truediv double_arithmetic (successful_requests sample_result)
          (total_requests sample_result))
       (int_to_float double_arithmetic 100) = 75
   \<and> float_div double_arithmetic (float_sum double_arithmetic (response_times sample_result))
       (int_to_float double_arithmetic (int (length (response_times sample_result)))) = 3 / 2
   \<and> length (response_times sample_result) < 2 ^ 47
   \<and> nat \<lfloor>real (length (response_times sample_result)) * 0.95\<rfloor> = 3
   \<and> nat \<lfloor>real (length (response_times sample_result)) * 0.99\<rfloor> = 3"
proof -
  have ne: "response_times sample_result \<noteq> []" by (simp add: sample_result_def)
  have len: "length (response_times sample_result) = 4" by (simp add: sample_result_def)
  have tot: "total_requests sample_result = int (length (response_times sample_result))"
    by (simp add: sample_result_def)
  from get_statistics_float_formulas [OF ne, of double_arithmetic]
  obtain st where st: "get_statistics double_arithmetic sample_result = Inr (Some st)"
    and rate: "total_requests sample_result = int (length (response_times sample_result)) \<longrightarrow>
         success_rate st
           = float_mul double_arithmetic
               (int_truediv double_arithmetic (successful_requests sample_result)
                  (total_requests sample_result))
               (int_to_float double_arithmetic 100)"
    and avg: "avg_response_time st
         = float_div double_arithmetic
             (float_sum double_arithmetic (response_times sample_result))
             (int_to_float double_arithmetic (int (length (response_times sample_result))))"
    and idx: "length (response_times sample_result) < 2 ^ 47 \<longrightarrow>
         p95_index (length (response_times sample_result))
           = nat \<lfloor>real (length (response_times sample_result)) * 0.95\<rfloor>
         \<and> p99_index (length (response_times sample_result))
           = nat \<lfloor>real (length (response_times sample_result)) * 0.99\<rfloor>"
    by blast
  from st have record_value: "st = \<lparr>stat_total_requests = 4, stat_successful_requests = 3,
                  stat_failed_requests = 1, success_rate = 75, total_time = 8,
                  requests_per_second = 1 / 2, avg_response_time = 3 / 2,
                  min_response_time = 1 / 2, max_response_time = 3,
                  median_response_time = 2, p95_response_time = 3,
                  p99_response_time = 3\<rparr>"
    by (simp only: sample_result_statistics sum.inject option.inject)
  have 1: "float_mul double_arithmetic
       (int_truediv double_arithmetic (successful_requests sample_result)
          (total_requests sample_result))
       (int_to_float double_arithmetic 100) = 75"
    using rate tot by (simp add: record_value)
  have 2: "float_div double_arithmetic
       (float_sum double_arithmetic (response_times sample_result))
       (int_to_float double_arithmetic (int (length (response_times sample_result)))) = 3 / 2"
    using avg by (simp add: record_value)
  have 3: "nat \<lfloor>real (length (response_times sample_result)) * 0.95\<rfloor> = 3"
    "nat \<lfloor>real (length (response_times sample_result)) * 0.99\<rfloor> = 3"
    using idx small_indices by (simp_all add: len)
  have 4: "length (response_times sample_result) < 2 ^ 47" by (simp add: len)
  from ne sample_result_statistics tot 1 2 3 4 show ?thesis by (simp only: simp_thms)
qed

theorem get_statistics_mean_counterexample:
  "get_statistics double_arithmetic tenths_result =
     Inr (Some \<lparr>stat_total_requests = 3, stat_successful_requests = 2,
                stat_failed_requests = 1,
                success_rate = 2345624805922133 / 35184372088832, total_time = 0,
                requests_per_second = 0,
                avg_response_time = 7205759403792795 / 72057594037927936,
                min_response_time = 3602879701896397 / 36028797018963968,
                max_response_time = 3602879701896397 / 36028797018963968,
                median_response_time = 3602879701896397 / 36028797018963968,
                p95_response_time = 3602879701896397 / 36028797018963968,
                p99_response_time = 3602879701896397 / 36028797018963968\<rparr>)
   \<and> sum_list (response_times tenths_result) / of_nat (length (response_times tenths_result))
       = 3602879701896397 / 36028797018963968
   \<and> (3602879701896397 / 36028797018963968 :: rat) < 7205759403792795 / 72057594037927936
   \<and> of_int (successful_requests tenths_result) / of_int (total_requests tenths_result) * 100
       = (200 / 3 :: rat)
   \<and> (2345624805922133 / 35184372088832 :: rat) < 200 / 3"
proof -
  have "sum_list (response_times tenths_result)
          / of_nat (length (response_times tenths_result))
       = 3602879701896397 / 36028797018963968"
    by (simp add: tenths_result_def)
  moreover have "(3602879701896397 / 36028797018963968 :: rat)
      < 7205759403792795 / 72057594037927936"
    by simp
  moreover have "of_int (successful_requests tenths_result)
        / of_int (total_requests tenths_result) * 100 = (200 / 3 :: rat)"
    by (simp add: tenths_result_def)
  moreover have "(2345624805922133 / 35184372088832 :: rat) < 200 / 3" by simp
  ultimately show ?thesis using tenths_result_statistics by (simp only: simp_thms)
qed

section \<open>Properties of the handlers\<close>

lemma raised_simps [simp]:
  "db_after (raised db fx e) = db" "effects (raised db fx e) = fx" "returns (raised db fx e) = Inl e"
  by (simp_all add: raised_def)

lemma returned_simps [simp]:
  "db_after (returned db fx r) = db" "effects (returned db fx r) = fx" "returns (returned db fx r) = Inr r"
  by (simp_all add: returned_def)

subsection \<open>What each handler does to the activities\<close>















subsection \<open>The status of an activity\<close>








subsection \<open>The update that starts a question\<close>

lemma update_activity_after_close:
  assumes "au_status data = Some (Some ''active'')" and "au_current_question_id data = Some q"
    and "au_display_mode data = None"
  shows "returns (update_activity activity_id data db) = Inl cursor_closed"
    and "effects (update_activity activity_id data db) =
       [Commit, Emit ''activity_updated'' (ActivityUpdatedPayload activity_id data)]"
proof -
  have "collected_updates data \<noteq> []"
    using assms(1) by (simp add: collected_updates_def status_updates_def)
  then show "returns (update_activity activity_id data db) = Inl cursor_closed"
    and "effects (update_activity activity_id data db) =
       [Commit, Emit ''activity_updated'' (ActivityUpdatedPayload activity_id data)]"
    using assms
    by (simp_all add: update_activity_def Let_def select_display_mode_def cur_close_def
        conn_cursor_def)
qed

text \<open>
  C4, the code against the claim. \<^verbatim>\<open>PUT /api/activities/1\<close> with
  \<^verbatim>\<open>{"status": "active", "current_question_id": 1}\<close> on a database that has activity 1
  (its stored \<open>display_mode\<close> is \<^verbatim>\<open>'none'\<close>): the handler commits the update and emits
  \<^verbatim>\<open>activity_updated\<close>, then calls \<^verbatim>\<open>cur.execute\<close> on the cursor it has closed and raises
  \<^verbatim>\<open>InterfaceError\<close>. It emits no \<^verbatim>\<open>display_update\<close> and returns no
  \<^verbatim>\<open>{'success': True}\<close>.
\<close>

theorem update_activity_start_question_raises:
  "returns (update_activity 1 start_question zero_limit_db) = Inl cursor_closed
   \<and> effects (update_activity 1 start_question zero_limit_db) =
       [Commit, Emit ''activity_updated'' (ActivityUpdatedPayload 1 start_question)]
   \<and> map a_display_mode (activities zero_limit_db) = [Some ''none'']"
  using update_activity_after_close [of start_question "Some 1" 1 zero_limit_db]
  by (simp add: start_question_def no_update_def zero_limit_db_def)

subsection \<open>The events of the writes\<close>











subsection \<open>The answer limit\<close>

lemma select_answer_limit_references:
  assumes "select_answer_limit question_id db = Some column"
  shows "references (map q_id (questions db)) question_id"
proof -
  from assms have "filter (\<lambda>q. sql_eq (Some (q_id q)) question_id) (questions db) \<noteq> []"
    by (auto simp: select_answer_limit_def fetchone_def)
  then obtain q where "q \<in> set (questions db)" "sql_eq (Some (q_id q)) question_id"
    by (auto simp: filter_empty_conv)
  then show ?thesis
    by (auto simp: references_def sql_eq_def)
qed

text \<open>
  C1 (as amended). For every question whose \<open>answer_limit\<close> is a value \<open>L\<close> that is neither
  null nor zero, \<^verbatim>\<open>submit_answer\<close> rejects a submission of a user who has at least \<open>L\<close>
  answers to the question: it returns 400 with the error code
  \<^verbatim>\<open>'ANSWER_LIMIT_EXCEEDED'\<close> and leaves the database as it is. In every other case (the
  limit is null or zero, or the user has fewer than \<open>L\<close> answers), for a submission whose
  activity and user exist, it inserts the answer and returns 201 with the id of the new
  answer.
\<close>

theorem submit_answer_limit:
  assumes "select_answer_limit (sd_question_id data) db = Some column"
  shows "(\<forall>L. column = Some L \<and> L \<noteq> 0
              \<and> L \<le> count_answers (sd_question_id data) (sd_user_id data) db \<longrightarrow>
            submit_answer data db =
              returned db [] (ErrorBody (limit_message L) (Some ''ANSWER_LIMIT_EXCEEDED''), 400))
       \<and> ((column = None \<or> column = Some 0
            \<or> (\<exists>L. column = Some L
                   \<and> count_answers (sd_question_id data) (sd_user_id data) db < L))
           \<and> references (map a_id (activities db)) (sd_activity_id data)
           \<and> references (map u_id (users db)) (sd_user_id data) \<longrightarrow>
            returns (submit_answer data db) = Inr (IdBody (answers_id_seq db), 201)
            \<and> answers (db_after (submit_answer data db)) =
                answers db @
                  [\<lparr>ans_id = answers_id_seq db, ans_activity_id = sd_activity_id data,
                    ans_question_id = sd_question_id data, ans_user_id = sd_user_id data,
                    ans_answer_text = sd_answer_text data, ans_submitted_at = clock db\<rparr>])"
proof -
  note q = select_answer_limit_references [OF assms]
  show ?thesis
    using assms q
    by (auto simp: submit_answer_def limit_reached_def insert_answer_def Let_def)
qed

lemma quiz_db_value:
  "quiz_db =
     \<lparr>questions = [\<lparr>q_id = 1, q_type = ''text'', q_content = ''why?'', q_options = Some (JList []),
                     q_time_limit = None, q_answer_limit = Some 1, q_created_at = 0\<rparr>],
      activities = [\<lparr>a_id = 1, a_name = ''quiz'', a_status = Some ''preparing'',
                      a_current_question_id = None, a_groups_count = None, a_groups = None,
                      a_display_mode = Some ''none'', a_started_at = None, a_ended_at = None,
                      a_created_at = 0\<rparr>],
      users = [\<lparr>u_id = 1, u_activity_id = Some 1, u_name = ''ann'', u_group_name = None,
                 u_joined_at = 0\<rparr>],
      answers = [],
      questions_id_seq = 2, activities_id_seq = 2, users_id_seq = 2, answers_id_seq = 1,
      clock = 0\<rparr>"
  by (simp add: quiz_db_def run_def create_activity_def insert_activity_def create_question_def
      insert_question_def join_activity_def insert_user_def references_def quiz_def why_def
      ann_def empty_database_def Let_def)

lemma answered_db_value:
  "answered_db = quiz_db\<lparr>answers :=
      [\<lparr>ans_id = 1, ans_activity_id = Some 1, ans_question_id = Some 1, ans_user_id = Some 1,
        ans_answer_text = Some ''so'', ans_submitted_at = 0\<rparr>], answers_id_seq := 2\<rparr>"
  by (simp add: answered_db_def run_def quiz_db_value submit_answer_def limit_reached_def
      select_answer_limit_def count_answers_def fetchone_def sql_eq_def insert_answer_def
      references_def ann_answers_def Let_def)

lemma nobody_db_value:
  "nobody_db = quiz_db\<lparr>answers :=
      [\<lparr>ans_id = 1, ans_activity_id = Some 1, ans_question_id = Some 1, ans_user_id = None,
        ans_answer_text = Some ''so'', ans_submitted_at = 0\<rparr>], answers_id_seq := 2\<rparr>"
  by (simp add: nobody_db_def run_def quiz_db_value submit_answer_def limit_reached_def
      select_answer_limit_def count_answers_def fetchone_def sql_eq_def insert_answer_def
      references_def ann_answers_def nobody_answers_def Let_def)

text \<open>
  C1, at a question that allows one answer: the first answer of a user is stored, the
  second is rejected.
\<close>

theorem submit_answer_limit_witness:
  "select_answer_limit (sd_question_id ann_answers) answered_db = Some (Some 1)
   \<and> 1 \<le> count_answers (sd_question_id ann_answers) (sd_user_id ann_answers) answered_db
   \<and> submit_answer ann_answers answered_db =
       returned answered_db [] (ErrorBody (limit_message 1) (Some ''ANSWER_LIMIT_EXCEEDED''), 400)
   \<and> select_answer_limit (sd_question_id ann_answers) quiz_db = Some (Some 1)
   \<and> count_answers (sd_question_id ann_answers) (sd_user_id ann_answers) quiz_db < 1
   \<and> references (map a_id (activities quiz_db)) (sd_activity_id ann_answers)
   \<and> references (map u_id (users quiz_db)) (sd_user_id ann_answers)
   \<and> returns (submit_answer ann_answers quiz_db) = Inr (IdBody 1, 201)
   \<and> length (answers (db_after (submit_answer ann_answers quiz_db))) = 1"
proof -
  have a: "select_answer_limit (sd_question_id ann_answers) answered_db = Some (Some 1)"
    and b: "count_answers (sd_question_id ann_answers) (sd_user_id ann_answers) answered_db = 1"
    by (simp_all add: answered_db_value quiz_db_value select_answer_limit_def count_answers_def
        fetchone_def sql_eq_def ann_answers_def)
  have c: "select_answer_limit (sd_question_id ann_answers) quiz_db = Some (Some 1)"
    and d: "count_answers (sd_question_id ann_answers) (sd_user_id ann_answers) quiz_db = 0"
    and e: "references (map a_id (activities quiz_db)) (sd_activity_id ann_answers)"
    and f: "references (map u_id (users quiz_db)) (sd_user_id ann_answers)"
    and g: "answers_id_seq quiz_db = 1" "answers quiz_db = []"
    by (simp_all add: quiz_db_value select_answer_limit_def count_answers_def
        fetchone_def sql_eq_def references_def ann_answers_def)
  from submit_answer_limit [OF a] b
  have 1: "submit_answer ann_answers answered_db =
       returned answered_db [] (ErrorBody (limit_message 1) (Some ''ANSWER_LIMIT_EXCEEDED''), 400)"
    by simp
  from submit_answer_limit [OF c] d e f g
  have 2: "returns (submit_answer ann_answers quiz_db) = Inr (IdBody 1, 201)"
    and 3: "length (answers (db_after (submit_answer ann_answers quiz_db))) = 1"
    by simp_all
  from a b c d e f 1 2 3 show ?thesis by simp
qed

text \<open>
  C1, the claim as stated, fails at the non-null limit \<open>0\<close>: the user has at least \<open>0\<close>
  answers, and the submission is stored and answered with 201, because
  \<^verbatim>\<open>question.get('answer_limit')\<close> is false for \<open>0\<close>.
\<close>

theorem submit_answer_zero_limit_counterexample:
  "select_answer_limit (sd_question_id ann_answers) zero_limit_db = Some (Some 0)
   \<and> 0 \<le> count_answers (sd_question_id ann_answers) (sd_user_id ann_answers) zero_limit_db
   \<and> returns (submit_answer ann_answers zero_limit_db) = Inr (IdBody 1, 201)
   \<and> length (answers (db_after (submit_answer ann_answers zero_limit_db))) = 1"
  by (simp add: zero_limit_db_def submit_answer_def limit_reached_def select_answer_limit_def
      count_answers_def fetchone_def sql_eq_def insert_answer_def references_def
      ann_answers_def Let_def)

subsection \<open>The groups of an activity\<close>

lemma fetchone_filter: "fetchone (filter P xs) = find P xs"
  by (induction xs) (simp_all add: fetchone_def)




subsection \<open>The detail of an activity\<close>

lemma join_one_answer:
  "map (\<lambda>(a, u). \<lparr>ja_answer = a, ja_user_name = u_name u, ja_group_name = u_group_name u\<rparr>)
     (filter (\<lambda>(a, u). ans_activity_id a = Some activity_id \<and> ans_user_id a = Some (u_id u))
        (map (Pair a) us))
   = (if ans_activity_id a = Some activity_id then join_users a us else [])"
  by (induction us) (simp_all add: join_users_def)

lemma joined_list:
  "concat (map (\<lambda>a. join_users a us)
     (filter (\<lambda>a. ans_activity_id a = Some activity_id) as)) =
   map (\<lambda>(a, u). \<lparr>ja_answer = a, ja_user_name = u_name u, ja_group_name = u_group_name u\<rparr>)
     (filter (\<lambda>(a, u). ans_activity_id a = Some activity_id \<and> ans_user_id a = Some (u_id u))
        (List.product as us))"
proof (induction as)
  case Nil
  then show ?case by simp
next
  case (Cons a as)
  show ?case
    using join_one_answer [of activity_id a us] by (simp add: Cons.IH)
qed

lemma mset_answers_of_activity:
  "mset (answers_of_activity activity_id db) = answers_with_user activity_id db"
proof -
  have "mset (answers_of_activity activity_id db) =
      mset (concat (map (\<lambda>a. join_users a (users db))
                  (filter (\<lambda>a. ans_activity_id a = Some activity_id) (answers db))))"
    by (simp add: answers_of_activity_def)
  also have "\<dots> = answers_with_user activity_id db"
    unfolding joined_list answers_with_user_def
    by (simp only: mset_map mset_filter)
  finally show ?thesis .
qed

text \<open>
  C10 (as amended). For an activity id that no row has, \<^verbatim>\<open>get_activity\<close> returns 404 with
  \<^verbatim>\<open>{'error': 'Activity not found'}\<close>. Otherwise it returns the row of the activity with
  a list \<^verbatim>\<open>'users'\<close> of exactly the users of the activity and a list \<^verbatim>\<open>'answers'\<close> of exactly
  those answers of the activity whose \<open>user_id\<close> is the id of a user, each with the name
  and the group of that user.
\<close>

theorem get_activity_detail:
  "(activity_id \<notin> set (map a_id (activities db)) \<longrightarrow>
      returns (get_activity activity_id db) = Inr (ErrorBody ''Activity not found'' None, 404))
   \<and> (\<forall>row. find (\<lambda>a. a_id a = activity_id) (activities db) = Some row \<longrightarrow>
        (\<exists>us ans. returns (get_activity activity_id db) = Inr (ActivityBody row us ans, 200)
           \<and> us = filter (\<lambda>u. u_activity_id u = Some activity_id) (users db)
           \<and> mset ans = answers_with_user activity_id db))"
proof -
  have "activity_id \<notin> set (map a_id (activities db)) \<Longrightarrow>
      find (\<lambda>a. a_id a = activity_id) (activities db) = None"
    by (auto simp: find_None_iff)
  then show ?thesis
    by (auto simp: get_activity_def fetchone_filter users_of_activity_def
        mset_answers_of_activity)
qed

text \<open>C10, at an activity with one user and one answer, and at an id that is not there.\<close>

theorem get_activity_detail_witness:
  "7 \<notin> set (map a_id (activities answered_db))
   \<and> returns (get_activity 7 answered_db) = Inr (ErrorBody ''Activity not found'' None, 404)
   \<and> find (\<lambda>a. a_id a = 1) (activities answered_db) = Some (hd (activities answered_db))
   \<and> returns (get_activity 1 answered_db) =
       Inr (ActivityBody (hd (activities answered_db)) (users answered_db)
              [\<lparr>ja_answer = hd (answers answered_db), ja_user_name = ''ann'',
                ja_group_name = None\<rparr>], 200)"
proof -
  have n: "7 \<notin> set (map a_id (activities answered_db))"
    and f: "find (\<lambda>a. a_id a = 1) (activities answered_db) = Some (hd (activities answered_db))"
    by (simp_all add: answered_db_value quiz_db_value)
  from get_activity_detail [of 7 answered_db] n
  have 1: "returns (get_activity 7 answered_db) = Inr (ErrorBody ''Activity not found'' None, 404)"
    by simp
  have 2: "returns (get_activity 1 answered_db) =
       Inr (ActivityBody (hd (activities answered_db)) (users answered_db)
              [\<lparr>ja_answer = hd (answers answered_db), ja_user_name = ''ann'',
                ja_group_name = None\<rparr>], 200)"
    by (simp add: get_activity_def fetchone_def users_of_activity_def answers_of_activity_def
        join_users_def answered_db_value quiz_db_value)
  from n f 1 2 show ?thesis by simp
qed

text \<open>
  C10, the claim as stated, fails: an answer submitted with \<^verbatim>\<open>"user_id": null\<close> is an
  answer of activity 1, and the inner join leaves it out of \<^verbatim>\<open>'answers'\<close>.
\<close>

theorem get_activity_answer_without_user_counterexample:
  "map ans_id (filter (\<lambda>a. ans_activity_id a = Some 1) (answers nobody_db)) = [1]
   \<and> returns (get_activity 1 nobody_db) =
       Inr (ActivityBody (hd (activities nobody_db)) (users nobody_db) [], 200)"
  by (simp add: get_activity_def fetchone_def users_of_activity_def answers_of_activity_def
      join_users_def nobody_db_value quiz_db_value)

end
